theory Spec2Isabelle
  imports Complex_Main "HOL-Library.Multiset"
begin

section \<open>Python values shared by the experiment scripts\<close>

text \<open>
  Every script of the repository repeats the same three stages: it builds circuits,
  decodes a histogram from a result object, and derives statistics from the histogram.
  Exceptions are values: a function that may raise returns \<open>py_error + 'a\<close>, with
  \<open>Inl\<close> for the exception.

  The statistics are Python floats.  Where a result depends on rounding, in the running
  sums and the threshold comparison of the Zeno script, doubles are modelled with
  their rounding (see the section on double-precision arithmetic).  Elsewhere a
  quotient \<open>int / int\<close> is modelled by the exact quotient, a real number; the
  theorems of those parts state values (0, 1/2, 1, -1, 4) that the correctly rounded
  quotient has as well.
\<close>

datatype py_error = ZeroDivisionError | OverflowError | AttributeError | IndexError | KeyError
  | TypeError | CircuitError | KeyboardInterrupt

text \<open>
  A histogram is the \<open>dict\<close> returned by \<open>get_counts()\<close>: bitstring keys, integer
  counts, in insertion order.  The keys of a \<open>dict\<close> are distinct.
\<close>

type_synonym histogram = "(string \<times> int) list"

definition dict_get :: "('k \<times> 'v) list \<Rightarrow> 'k \<Rightarrow> 'v \<Rightarrow> 'v" where
  \<comment> \<open>\<open>d.get(k, default)\<close>\<close>
  "dict_get d k dflt = (case map_of d k of None \<Rightarrow> dflt | Some v \<Rightarrow> v)"

definition dict_index :: "('k \<times> 'v) list \<Rightarrow> 'k \<Rightarrow> py_error + 'v" where
  \<comment> \<open>\<open>d[k]\<close>\<close>
  "dict_index d k = (case map_of d k of None \<Rightarrow> Inl KeyError | Some v \<Rightarrow> Inr v)"

definition dict_values_sum :: "histogram \<Rightarrow> int" where
  \<comment> \<open>\<open>sum(counts.values())\<close>\<close>
  "dict_values_sum counts = sum_list (map snd counts)"

definition py_truediv :: "real \<Rightarrow> real \<Rightarrow> py_error + real" where
  \<comment> \<open>\<open>a / b\<close>: raises on a zero divisor, where HOL's division returns 0\<close>
  "py_truediv a b = (if b = 0 then Inl ZeroDivisionError else Inr (a / b))"

definition bind_result :: "py_error + 'a \<Rightarrow> ('a \<Rightarrow> py_error + 'b) \<Rightarrow> py_error + 'b" where
  \<comment> \<open>sequencing of two steps, the first of which may raise\<close>
  "bind_result r f = (case r of Inl e \<Rightarrow> Inl e | Inr v \<Rightarrow> f v)"

text \<open>
  After decoding, every \<open>run_experiment\<close> stores the histogram with its total:
  \<open>"total": sum(counts.values()) if counts else shots\<close>.
\<close>

record setting_result =
  counts :: histogram
  total :: int

definition total_counts :: "histogram \<Rightarrow> int \<Rightarrow> int" where
  "total_counts cs shots = (if cs \<noteq> [] then dict_values_sum cs else shots)"

definition process_result :: "histogram \<Rightarrow> int \<Rightarrow> setting_result" where
  "process_result cs shots = \<lparr>counts = cs, total = total_counts cs shots\<rparr>"


section \<open>CHSH: correlators, the S value and the verdict (chsh-bell/main.py)\<close>

definition calculate_correlator :: "histogram \<Rightarrow> int \<Rightarrow> py_error + real" where
  "calculate_correlator cs tot =
     (let same = dict_get cs ''00'' 0 + dict_get cs ''11'' 0;
          diff = dict_get cs ''01'' 0 + dict_get cs ''10'' 0
      in py_truediv (of_int (same - diff)) (of_int tot))"

datatype chsh_verdict = Bell_Inequality_Violated | No_Violation_Observed

record chsh_analysis =
  E_A0B0 :: real
  E_A0B1 :: real
  E_A1B0 :: real
  E_A1B1 :: real
  S_value :: real
  chsh_result :: chsh_verdict

definition classical_bound :: real where
  "classical_bound = 2"

text \<open>
  The loop over the four settings of \<open>analyze_results\<close>: the correlator, then the
  percentage \<open>c / total * 100\<close> of each of the four outcomes, which is printed only but
  divides by the total as well.
\<close>

definition outcome_percentages :: "histogram \<Rightarrow> int \<Rightarrow> string list \<Rightarrow> py_error + real list" where
  "outcome_percentages cs tot outcomes =
     foldr (\<lambda>outcome acc.
              bind_result (py_truediv (of_int (dict_get cs outcome 0)) (of_int tot)) (\<lambda>p.
              bind_result acc (\<lambda>ps. Inr (p * 100 # ps))))
       outcomes (Inr [])"

definition setting_correlator :: "(string \<times> setting_result) list \<Rightarrow> string \<Rightarrow> py_error + real" where
  "setting_correlator results setting =
     bind_result (dict_index results setting) (\<lambda>r.
     bind_result (calculate_correlator (counts r) (total r)) (\<lambda>E.
     bind_result (outcome_percentages (counts r) (total r) [''00'', ''01'', ''10'', ''11'']) (\<lambda>_.
     Inr E)))"

definition chsh_analyze_results :: "(string \<times> setting_result) list \<Rightarrow> py_error + chsh_analysis" where
  "chsh_analyze_results results =
     bind_result (setting_correlator results ''A0B0'') (\<lambda>e00.
     bind_result (setting_correlator results ''A0B1'') (\<lambda>e01.
     bind_result (setting_correlator results ''A1B0'') (\<lambda>e10.
     bind_result (setting_correlator results ''A1B1'') (\<lambda>e11.
       let S = e00 + e01 + e10 - e11 in
       Inr \<lparr>E_A0B0 = e00, E_A0B1 = e01, E_A1B0 = e10, E_A1B1 = e11, S_value = S,
            chsh_result = (if \<bar>S\<bar> > classical_bound then Bell_Inequality_Violated
                           else No_Violation_Observed)\<rparr>))))"

text \<open>The histograms of the end-to-end scenario, stored as \<open>run_experiment\<close> stores them.\<close>

definition chsh_scenario :: "int \<Rightarrow> (string \<times> setting_result) list" where
  "chsh_scenario shots =
     [(''A0B0'', process_result [(''00'', 500), (''11'', 500)] shots),
      (''A0B1'', process_result [(''00'', 500), (''11'', 500)] shots),
      (''A1B0'', process_result [(''00'', 500), (''11'', 500)] shots),
      (''A1B1'', process_result [(''01'', 500), (''10'', 500)] shots)]"


section \<open>Zeno: the theoretical predictor (quantum-zeno-effect/main.py)\<close>

text \<open>
  \<open>prob ** num_measurements\<close> on a NumPy float: a negative exponent gives the
  reciprocal power, and infinity when the base is zero.
\<close>

datatype np_float = Finite real | Infinity

definition np_power :: "real \<Rightarrow> int \<Rightarrow> np_float" where
  "np_power x n =
     (if 0 \<le> n then Finite (x ^ nat n)
      else if x = 0 then Infinity
      else Finite (1 / x ^ nat (- n)))"

definition theoretical_zeno_probability :: "int \<Rightarrow> real \<Rightarrow> np_float" where
  "theoretical_zeno_probability num_measurements total_angle =
     (if num_measurements = 0 then Finite ((cos (total_angle / 2))\<^sup>2)
      else
        let angle_per_step = total_angle / of_int num_measurements;
            prob_stay_0_per_step = (cos (angle_per_step / 2))\<^sup>2
        in np_power prob_stay_0_per_step num_measurements)"


section \<open>Zeno: the circuit generators (quantum-zeno-effect/main.py)\<close>

text \<open>
  A circuit is the list of instructions appended to a \<open>QuantumCircuit\<close>, with its
  register sizes and its name.  \<open>Ry \<phi> q\<close> rotates qubit \<open>q\<close> by \<open>\<phi>\<close>,
  \<open>Measure q c\<close> measures qubit \<open>q\<close> into classical bit \<open>c\<close>.
\<close>

datatype instruction = Ry real nat | Measure nat nat | Reset nat | Barrier

record quantum_circuit =
  num_qubits :: nat
  num_clbits :: nat
  circuit_name :: string
  instructions :: "instruction list"

function str_nat :: "nat \<Rightarrow> string" where
  "str_nat n =
     (if n < 10 then [''0123456789'' ! n]
      else str_nat (n div 10) @ [''0123456789'' ! (n mod 10)])"
  by pat_completeness auto
termination
  by (relation "measure id") auto

definition str_int :: "int \<Rightarrow> string" where
  \<comment> \<open>the decimal rendering of an integer in an f-string\<close>
  "str_int i = (if i < 0 then CHR ''-'' # str_nat (nat (- i)) else str_nat (nat i))"

definition zeno_step :: "real \<Rightarrow> int \<Rightarrow> nat \<Rightarrow> instruction list" where
  \<comment> \<open>the body of the loop of \<open>create_zeno_circuit\<close>, at index \<open>i\<close>\<close>
  "zeno_step angle_per_step num_measurements i =
     [Ry angle_per_step 0, Measure 0 0, Reset 0]
     @ (if int i < num_measurements - 1 then [Barrier] else [])"

definition create_zeno_circuit :: "int \<Rightarrow> real \<Rightarrow> py_error + quantum_circuit" where
  "create_zeno_circuit num_measurements total_angle =
     bind_result (py_truediv total_angle (of_int num_measurements)) (\<lambda>angle_per_step.
       Inr \<lparr>num_qubits = 1, num_clbits = 1,
            circuit_name = ''zeno_n'' @ str_int num_measurements,
            instructions =
              concat (map (zeno_step angle_per_step num_measurements) [0..<nat num_measurements])
              @ [Ry angle_per_step 0, Measure 0 0]\<rparr>)"

definition create_unobserved_circuit :: "real \<Rightarrow> quantum_circuit" where
  "create_unobserved_circuit total_angle =
     \<lparr>num_qubits = 1, num_clbits = 1, circuit_name = ''unobserved'',
      instructions = [Ry total_angle 0, Measure 0 0]\<rparr>"

text \<open>
  The survival variant declares \<open>num_measurements + 1\<close> classical bits before it
  divides; \<open>QuantumCircuit\<close> rejects a negative register size.
\<close>

definition survival_step :: "real \<Rightarrow> nat \<Rightarrow> instruction list" where
  "survival_step angle_per_step i = [Ry angle_per_step 0, Measure 0 i, Barrier]"

definition create_survival_zeno_circuit :: "int \<Rightarrow> real \<Rightarrow> py_error + quantum_circuit" where
  "create_survival_zeno_circuit num_measurements total_angle =
     (if num_measurements + 1 < 0 then Inl CircuitError
      else
        bind_result (py_truediv total_angle (of_int (num_measurements + 1))) (\<lambda>angle_per_step.
          Inr \<lparr>num_qubits = 1, num_clbits = nat (num_measurements + 1),
               circuit_name = ''survival_n'' @ str_int num_measurements,
               instructions =
                 concat (map (survival_step angle_per_step) [0..<nat num_measurements])
                 @ [Ry angle_per_step 0, Measure 0 (nat num_measurements)]\<rparr>))"

text \<open>
  The circuit list of \<open>run_zeno_experiment\<close>: the unobserved circuit first, labelled
  \<open>("unobserved", 0)\<close>, then one staged circuit for every entry of
  \<open>measurement_counts\<close>, in order.  The first entry that makes the generator raise
  ends the run.
\<close>

fun staged_circuits :: "int list \<Rightarrow> real \<Rightarrow> py_error + quantum_circuit list" where
  "staged_circuits [] total_angle = Inr []"
| "staged_circuits (n # ns) total_angle =
     bind_result (create_zeno_circuit n total_angle) (\<lambda>qc.
     bind_result (staged_circuits ns total_angle) (\<lambda>qcs. Inr (qc # qcs)))"

definition zeno_experiment_circuits ::
  "int list \<Rightarrow> real \<Rightarrow> py_error + (quantum_circuit list \<times> (string \<times> int) list)" where
  "zeno_experiment_circuits measurement_counts total_angle =
     bind_result (staged_circuits measurement_counts total_angle) (\<lambda>qcs.
       Inr (create_unobserved_circuit total_angle # qcs,
            (''unobserved'', 0) # map (\<lambda>n. (''zeno'', n)) measurement_counts))"

text \<open>
  The shape of a circuit: its rotations, measurements and resets in order, without the
  barriers and without the qubit and bit indices.
\<close>

datatype stage = Rotation real | Measurement | Reset_State

fun shape :: "instruction list \<Rightarrow> stage list" where
  "shape [] = []"
| "shape (Ry \<phi> q # is) = Rotation \<phi> # shape is"
| "shape (Measure q c # is) = Measurement # shape is"
| "shape (Reset q # is) = Reset_State # shape is"
| "shape (Barrier # is) = shape is"

definition staged_shape :: "nat \<Rightarrow> real \<Rightarrow> stage list" where
  \<comment> \<open>the staged circuit in the specification's words: \<open>N\<close> steps (rotation by
      \<open>\<theta>/N\<close>, measure, reset), then a final rotation by \<open>\<theta>/N\<close> and a measurement\<close>
  "staged_shape N \<theta> =
     concat (replicate N [Rotation (\<theta> / real N), Measurement, Reset_State])
     @ [Rotation (\<theta> / real N), Measurement]"

definition survival_shape :: "nat \<Rightarrow> real \<Rightarrow> stage list" where
  \<comment> \<open>\<open>N\<close> checkpoints (rotation by \<open>\<theta>/(N+1)\<close>, measure) with no reset, then the
      final rotation and measurement\<close>
  "survival_shape N \<theta> =
     concat (replicate N [Rotation (\<theta> / real (N + 1)), Measurement])
     @ [Rotation (\<theta> / real (N + 1)), Measurement]"


section \<open>GHZ: parity of the outcomes (ghz-paradox/main.py)\<close>

definition count_ones :: "string \<Rightarrow> nat" where
  \<comment> \<open>\<open>k.count("1")\<close>\<close>
  "count_ones k = length (filter (\<lambda>ch. ch = CHR ''1'') k)"

definition even_count :: "histogram \<Rightarrow> int" where
  \<comment> \<open>\<open>sum(counts.get(k, 0) for k in counts if k.count("1") % 2 == 0)\<close>\<close>
  "even_count cs =
     sum_list (map (\<lambda>k. dict_get cs k 0) (filter (\<lambda>k. count_ones k mod 2 = 0) (map fst cs)))"

definition odd_count :: "histogram \<Rightarrow> int" where
  \<comment> \<open>\<open>sum(counts.get(k, 0) for k in counts if k.count("1") % 2 == 1)\<close>\<close>
  "odd_count cs =
     sum_list (map (\<lambda>k. dict_get cs k 0) (filter (\<lambda>k. count_ones k mod 2 = 1) (map fst cs)))"

definition even_fraction :: "histogram \<Rightarrow> int \<Rightarrow> py_error + real" where
  "even_fraction cs tot = py_truediv (of_int (even_count cs)) (of_int tot)"

definition odd_fraction :: "histogram \<Rightarrow> int \<Rightarrow> py_error + real" where
  "odd_fraction cs tot = py_truediv (of_int (odd_count cs)) (of_int tot)"

text \<open>
  One pass of the loop over the bases XYY, YXY, YYX, XXX: the two counts and their
  percentages of the total.
\<close>

record parity_row =
  row_even_count :: int
  row_odd_count :: int
  even_pct :: real
  odd_pct :: real

definition parity_measurement :: "(string \<times> setting_result) list \<Rightarrow> string \<Rightarrow> py_error + parity_row" where
  "parity_measurement results basis =
     bind_result (dict_index results basis) (\<lambda>r.
     bind_result (even_fraction (counts r) (total r)) (\<lambda>e.
     bind_result (odd_fraction (counts r) (total r)) (\<lambda>od.
       Inr \<lparr>row_even_count = even_count (counts r), row_odd_count = odd_count (counts r),
            even_pct = e * 100, odd_pct = od * 100\<rparr>)))"

datatype ghz_verdict = GHZ_Paradox_Demonstrated | Signal_Degraded

record ghz_analysis =
  ghz_fidelity :: real
  parity_rows :: "parity_row list"
  xyy_even :: real
  yxy_even :: real
  yyx_even :: real
  xxx_odd :: real
  ghz_result :: ghz_verdict

definition basis_fraction ::
  "(histogram \<Rightarrow> int \<Rightarrow> py_error + real) \<Rightarrow> (string \<times> setting_result) list \<Rightarrow> string
     \<Rightarrow> py_error + real" where
  "basis_fraction fraction results basis =
     bind_result (dict_index results basis) (\<lambda>r. fraction (counts r) (total r))"

definition ghz_analyze_results :: "(string \<times> setting_result) list \<Rightarrow> py_error + ghz_analysis" where
  "ghz_analyze_results results =
     bind_result (dict_index results ''ZZZ'') (\<lambda>zzz.
     bind_result (outcome_percentages (counts zzz) (total zzz)
                    [''000'', ''001'', ''010'', ''011'', ''100'', ''101'', ''110'', ''111'']) (\<lambda>_.
     bind_result (py_truediv (of_int (dict_get (counts zzz) ''000'' 0 + dict_get (counts zzz) ''111'' 0))
                    (of_int (total zzz))) (\<lambda>fidelity.
     bind_result (parity_measurement results ''XYY'') (\<lambda>row1.
     bind_result (parity_measurement results ''YXY'') (\<lambda>row2.
     bind_result (parity_measurement results ''YYX'') (\<lambda>row3.
     bind_result (parity_measurement results ''XXX'') (\<lambda>row4.
     bind_result (basis_fraction even_fraction results ''XYY'') (\<lambda>xyy.
     bind_result (basis_fraction even_fraction results ''YXY'') (\<lambda>yxy.
     bind_result (basis_fraction even_fraction results ''YYX'') (\<lambda>yyx.
     bind_result (basis_fraction odd_fraction results ''XXX'') (\<lambda>xxx.
       Inr \<lparr>ghz_fidelity = fidelity, parity_rows = [row1, row2, row3, row4],
            xyy_even = xyy, yxy_even = yxy, yyx_even = yyx, xxx_odd = xxx,
            ghz_result = (if xxx > 5 / 10 then GHZ_Paradox_Demonstrated
                          else Signal_Degraded)\<rparr>)))))))))))"

text \<open>
  The end-to-end scenario: every shot of the XXX basis gave \<open>000\<close>.  The other bases
  hold the outcomes an ideal GHZ state gives.
\<close>

definition ghz_scenario :: "int \<Rightarrow> (string \<times> setting_result) list" where
  "ghz_scenario shots =
     [(''ZZZ'', process_result [(''000'', 50), (''111'', 50)] shots),
      (''XXX'', process_result [(''000'', 100)] shots),
      (''XYY'', process_result [(''000'', 50), (''011'', 50)] shots),
      (''YXY'', process_result [(''101'', 50), (''110'', 50)] shots),
      (''YYX'', process_result [(''000'', 100)] shots)]"


section \<open>Pigeonhole: which pairs share a box (quantum-pigeonhole/main.py)\<close>

definition zfill :: "string \<Rightarrow> nat \<Rightarrow> string" where
  \<comment> \<open>\<open>s.zfill(width)\<close>: zeros on the left, after a leading sign\<close>
  "zfill s width =
     (if width \<le> length s then s
      else case s of
             [] \<Rightarrow> replicate width (CHR ''0'')
           | ch # rest \<Rightarrow>
               if ch = CHR ''+'' \<or> ch = CHR ''-''
               then ch # replicate (width - length s) (CHR ''0'') @ rest
               else replicate (width - length s) (CHR ''0'') @ s)"

record sharing_counts =
  pair_01_share :: int
  pair_12_share :: int
  pair_02_share :: int
  any_share :: int

definition sharing_step :: "string \<Rightarrow> int \<Rightarrow> sharing_counts \<Rightarrow> sharing_counts" where
  \<comment> \<open>the body of the loop of \<open>analyze_sharing\<close>\<close>
  "sharing_step outcome cnt acc =
     (let padded = zfill outcome 3;
          p0 = padded ! 0; p1 = padded ! 1; p2 = padded ! 2
      in \<lparr>pair_01_share = (if p0 = p1 then pair_01_share acc + cnt else pair_01_share acc),
          pair_12_share = (if p1 = p2 then pair_12_share acc + cnt else pair_12_share acc),
          pair_02_share = (if p0 = p2 then pair_02_share acc + cnt else pair_02_share acc),
          any_share = (if p0 = p1 \<or> p1 = p2 \<or> p0 = p2 then any_share acc + cnt
                       else any_share acc)\<rparr>)"

fun sharing_loop :: "histogram \<Rightarrow> sharing_counts \<Rightarrow> sharing_counts" where
  "sharing_loop [] acc = acc"
| "sharing_loop ((outcome, cnt) # rest) acc = sharing_loop rest (sharing_step outcome cnt acc)"

record sharing =
  pair_01 :: real
  pair_12 :: real
  pair_02 :: real
  any_pair :: real

definition analyze_sharing :: "histogram \<Rightarrow> int \<Rightarrow> py_error + sharing" where
  "analyze_sharing cs tot =
     (let acc = sharing_loop cs
                  \<lparr>pair_01_share = 0, pair_12_share = 0, pair_02_share = 0, any_share = 0\<rparr>
      in bind_result (py_truediv (of_int (pair_01_share acc)) (of_int tot)) (\<lambda>f01.
         bind_result (py_truediv (of_int (pair_12_share acc)) (of_int tot)) (\<lambda>f12.
         bind_result (py_truediv (of_int (pair_02_share acc)) (of_int tot)) (\<lambda>f02.
         bind_result (py_truediv (of_int (any_share acc)) (of_int tot)) (\<lambda>fany.
           Inr \<lparr>pair_01 = f01, pair_12 = f12, pair_02 = f02, any_pair = fany\<rparr>)))))"

text \<open>The eight three-bit outcomes, each with the same count.\<close>

definition three_bit_outcomes :: "string list" where
  "three_bit_outcomes = [''000'', ''001'', ''010'', ''011'', ''100'', ''101'', ''110'', ''111'']"

definition uniform_histogram :: "int \<Rightarrow> histogram" where
  "uniform_histogram w = map (\<lambda>k. (k, w)) three_bit_outcomes"

text \<open>The weight of the items whose padded key satisfies a condition on its first three characters.\<close>

definition share_weight :: "(char \<Rightarrow> char \<Rightarrow> char \<Rightarrow> bool) \<Rightarrow> string \<times> int \<Rightarrow> int" where
  "share_weight P item =
     (let padded = zfill (fst item) 3 in
      if P (padded ! 0) (padded ! 1) (padded ! 2) then snd item else 0)"


section \<open>Zeno: the survival probability (quantum-zeno-effect/main.py)\<close>

definition survival_probability :: "histogram \<Rightarrow> int \<Rightarrow> int \<Rightarrow> real" where
  \<comment> \<open>\<open>survival_count / total_counts if total_counts > 0 else 0\<close>\<close>
  "survival_probability cs n_meas shots =
     (let tot = total_counts cs shots;
          all_zeros = replicate (nat (n_meas + 1)) (CHR ''0'');
          survival_count = dict_get cs all_zeros 0
      in if tot > 0 then of_int survival_count / of_int tot else 0)"

text \<open>The CHSH results when the decoder found nothing for any of the four settings.\<close>

definition chsh_no_data :: "int \<Rightarrow> (string \<times> setting_result) list" where
  "chsh_no_data shots =
     map (\<lambda>setting. (setting, process_result [] shots)) [''A0B0'', ''A0B1'', ''A1B0'', ''A1B1'']"


section \<open>Double-precision arithmetic\<close>

text \<open>
  The Zeno script accumulates quotients and compares a sum with a probability, so its
  results depend on the rounding of Python's floats.  A finite double is modelled by
  the real number it denotes.  \<open>round_to_double\<close> is rounding to nearest, ties to
  even, to 53 significant bits with the exponent range of binary64: below
  \<open>2 ^ -1022\<close> the spacing stays \<open>2 ^ -1074\<close>, and a result of magnitude
  \<open>2 ^ 1024\<close> or more is an infinity.  Addition of two doubles is the rounded exact sum; \<open>int / int\<close> is the
  rounded exact quotient and raises \<open>OverflowError\<close> where that is not finite.  The two
  zeros are not distinguished.
\<close>

datatype double = Double real | Pos_Infinity | Neg_Infinity | Not_a_Number

definition round_half_even :: "real \<Rightarrow> int" where
  "round_half_even r =
     (let f = \<lfloor>r\<rfloor>; d = r - of_int f
      in if d < 1 / 2 then f else if 1 / 2 < d then f + 1 else if even f then f else f + 1)"

function exponent_up :: "real \<Rightarrow> int \<Rightarrow> int" where
  "exponent_up y e = (if y < 2 then e else exponent_up (y / 2) (e + 1))"
  by pat_completeness auto
termination
proof (relation "measure (\<lambda>(y, e). nat \<lfloor>y\<rfloor>)")
  show "wf (measure (\<lambda>(y :: real, e :: int). nat \<lfloor>y\<rfloor>))" by simp
next
  fix y :: real and e :: int
  assume "\<not> y < 2"
  then have one: "1 \<le> \<lfloor>y\<rfloor>" by linarith
  have "y < of_int \<lfloor>y\<rfloor> + 1" by linarith
  then have "y / 2 < (of_int \<lfloor>y\<rfloor> + 1) / 2" by simp
  also have "\<dots> \<le> of_int \<lfloor>y\<rfloor>" using one by simp
  finally have "\<lfloor>y / 2\<rfloor> < \<lfloor>y\<rfloor>" by (simp add: floor_less_iff)
  with one have "nat \<lfloor>y / 2\<rfloor> < nat \<lfloor>y\<rfloor>" by linarith
  then show "((y / 2, e + 1), (y, e)) \<in> measure (\<lambda>(y, e). nat \<lfloor>y\<rfloor>)"
    by (simp only: in_measure prod.case)
qed

function exponent_down :: "real \<Rightarrow> int \<Rightarrow> int" where
  "exponent_down y e = (if y \<le> 0 \<or> 1 \<le> y then e else exponent_down (y * 2) (e - 1))"
  by pat_completeness auto
termination
proof (relation "measure (\<lambda>(y, e). nat \<lfloor>1 / y\<rfloor>)")
  show "wf (measure (\<lambda>(y :: real, e :: int). nat \<lfloor>1 / y\<rfloor>))" by simp
next
  fix y :: real and e :: int
  assume "\<not> (y \<le> 0 \<or> 1 \<le> y)"
  then have y: "0 < y" "y < 1" by simp_all
  then have z: "1 \<le> 1 / y" by simp
  then have one: "1 \<le> \<lfloor>1 / y\<rfloor>" by linarith
  have "1 / y < of_int \<lfloor>1 / y\<rfloor> + 1" by linarith
  then have "(1 / y) / 2 < (of_int \<lfloor>1 / y\<rfloor> + 1) / 2" by simp
  also have "\<dots> \<le> of_int \<lfloor>1 / y\<rfloor>" using one by simp
  finally have "\<lfloor>(1 / y) / 2\<rfloor> < \<lfloor>1 / y\<rfloor>" by (simp only: floor_less_iff)
  moreover have "\<lfloor>1 / (y * 2)\<rfloor> = \<lfloor>(1 / y) / 2\<rfloor>" by (simp add: field_simps)
  ultimately have "nat \<lfloor>1 / (y * 2)\<rfloor> < nat \<lfloor>1 / y\<rfloor>" using one by linarith
  then show "((y * 2, e - 1), (y, e)) \<in> measure (\<lambda>(y, e). nat \<lfloor>1 / y\<rfloor>)"
    by (simp only: in_measure prod.case)
qed

definition binary_exponent :: "real \<Rightarrow> int" where
  "binary_exponent x = (if 1 \<le> \<bar>x\<bar> then exponent_up \<bar>x\<bar> 0 else exponent_down \<bar>x\<bar> 0)"

definition pow2 :: "int \<Rightarrow> real" where
  "pow2 k = (if 0 \<le> k then 2 ^ nat k else 1 / 2 ^ nat (- k))"

definition round_to_double :: "real \<Rightarrow> double" where
  "round_to_double x =
     (if x = 0 then Double 0
      else
        let e = max (binary_exponent x) (- 1022);
            quantum = pow2 (e - 52);
            y = of_int (round_half_even (x / quantum)) * quantum
        in if 2 ^ 1024 \<le> y then Pos_Infinity
           else if y \<le> - (2 ^ 1024) then Neg_Infinity
           else Double y)"

fun double_add :: "double \<Rightarrow> double \<Rightarrow> double" where
  "double_add (Double a) (Double b) = round_to_double (a + b)"
| "double_add Not_a_Number y = Not_a_Number"
| "double_add x Not_a_Number = Not_a_Number"
| "double_add Pos_Infinity Neg_Infinity = Not_a_Number"
| "double_add Neg_Infinity Pos_Infinity = Not_a_Number"
| "double_add Pos_Infinity y = Pos_Infinity"
| "double_add x Pos_Infinity = Pos_Infinity"
| "double_add Neg_Infinity y = Neg_Infinity"
| "double_add x Neg_Infinity = Neg_Infinity"

fun double_gt :: "double \<Rightarrow> double \<Rightarrow> bool" where
  "double_gt (Double a) (Double b) = (b < a)"
| "double_gt Not_a_Number y = False"
| "double_gt x Not_a_Number = False"
| "double_gt x Pos_Infinity = False"
| "double_gt Pos_Infinity y = True"
| "double_gt Neg_Infinity y = False"
| "double_gt x Neg_Infinity = True"

definition int_truediv :: "int \<Rightarrow> int \<Rightarrow> py_error + double" where
  "int_truediv a b =
     (if b = 0 then Inl ZeroDivisionError
      else case round_to_double (of_int a / of_int b) of
             Double q \<Rightarrow> Inr (Double q)
           | _ \<Rightarrow> Inl OverflowError)"

definition float_literal :: "real \<Rightarrow> double" where
  \<comment> \<open>a decimal literal of the source: the double nearest to it\<close>
  "float_literal x = round_to_double x"








section \<open>Zeno: processing and analysing the results (quantum-zeno-effect/main.py)\<close>

text \<open>
  The loop of \<open>run_zeno_experiment\<close> over the items of the histogram: the last
  character of the key decides which of \<open>prob_0\<close> and \<open>prob_1\<close> receives
  \<open>count / total_counts\<close>; an empty key counts as \<open>"0"\<close>.  Both start at 0 and
  are running sums of doubles.
\<close>

fun final_bit_loop :: "histogram \<Rightarrow> int \<Rightarrow> double \<Rightarrow> double \<Rightarrow> py_error + (double \<times> double)" where
  "final_bit_loop [] tot prob0 prob1 = Inr (prob0, prob1)"
| "final_bit_loop ((bitstring, cnt) # rest) tot prob0 prob1 =
     (let final_bit = (if bitstring \<noteq> [] then last bitstring else CHR ''0'') in
      if final_bit = CHR ''0''
      then bind_result (int_truediv cnt tot)
             (\<lambda>q. final_bit_loop rest tot (double_add prob0 q) prob1)
      else bind_result (int_truediv cnt tot)
             (\<lambda>q. final_bit_loop rest tot prob0 (double_add prob1 q)))"

definition final_bit_marginal :: "histogram \<Rightarrow> int \<Rightarrow> py_error + (double \<times> double)" where
  "final_bit_marginal cs shots = final_bit_loop cs (total_counts cs shots) (Double 0) (Double 0)"

record zeno_result =
  result_type :: string
  num_measurements :: int
  result_counts :: histogram
  prob_0 :: double
  prob_1 :: double
  theoretical_p0 :: np_float
  result_shots :: int

definition process_zeno_result ::
  "string \<Rightarrow> int \<Rightarrow> histogram \<Rightarrow> real \<Rightarrow> int \<Rightarrow> py_error + (string \<times> zeno_result)" where
  "process_zeno_result label n_meas cs total_angle shots =
     bind_result (final_bit_marginal cs shots) (\<lambda>(p0, p1).
       Inr (if label = ''zeno'' then label @ ''_'' @ str_int n_meas else ''unobserved'',
            \<lparr>result_type = label, num_measurements = n_meas, result_counts = cs,
             prob_0 = p0, prob_1 = p1,
             theoretical_p0 = theoretical_zeno_probability n_meas total_angle,
             result_shots = total_counts cs shots\<rparr>))"

text \<open>
  The dictionary that \<open>run_zeno_experiment\<close> returns and \<open>analyze_results\<close>
  receives.
\<close>

record zeno_experiment =
  experiment_results :: "(string \<times> zeno_result) list"
  job_id :: string
  backend :: string
  experiment_total_angle :: real
  experiment_shots :: int

datatype zeno_verdict = Zeno_Effect_Observed | Weak_Zeno_Effect | Zeno_Effect_Not_Clearly_Observed

text \<open>
  \<open>max(xs, key=f)\<close> on a non-empty list: an element replaces the best one so far
  when its key compares greater.
\<close>

fun py_max_by :: "('a \<Rightarrow> double) \<Rightarrow> 'a \<Rightarrow> 'a list \<Rightarrow> 'a" where
  "py_max_by key best [] = best"
| "py_max_by key best (x # xs) =
     py_max_by key (if double_gt (key x) (key best) then x else best) xs"

definition zeno_analyze_results :: "zeno_experiment \<Rightarrow> zeno_verdict option" where
  "zeno_analyze_results experiment =
     (let results = experiment_results experiment;
          zeno_results = sort_key (\<lambda>x. num_measurements (snd x))
                           (filter (\<lambda>x. result_type (snd x) = ''zeno'') results)
      in case map_of results ''unobserved'' of
           None \<Rightarrow> None
         | Some unobserved \<Rightarrow>
             (case zeno_results of
                [] \<Rightarrow> None
              | z # zs \<Rightarrow>
                  let unobs_p0 = prob_0 unobserved;
                      max_zeno = snd (py_max_by (\<lambda>x. prob_0 (snd x)) z zs)
                  in Some (if double_gt (prob_0 max_zeno)
                                (double_add unobs_p0 (float_literal (5 / 100)))
                           then Zeno_Effect_Observed
                           else if double_gt (prob_0 max_zeno) unobs_p0 then Weak_Zeno_Effect
                           else Zeno_Effect_Not_Clearly_Observed)))"

text \<open>
  The decision in the specification's words, with the margin as a parameter: the
  verdict is "observed" when the unobserved result exists and some Zeno result has a
  \<open>prob_0\<close> above the unobserved \<open>prob_0\<close> plus the margin, the sum and the
  comparison being those of doubles.
\<close>

definition observed_at_margin :: "double \<Rightarrow> (string \<times> zeno_result) list \<Rightarrow> bool" where
  "observed_at_margin margin results =
     (case map_of results ''unobserved'' of
        None \<Rightarrow> False
      | Some unobserved \<Rightarrow>
          list_ex (\<lambda>x. result_type (snd x) = ''zeno''
                        \<and> double_gt (prob_0 (snd x)) (double_add (prob_0 unobserved) margin))
            results)"

text \<open>
  The counts of the keys that count as final bit 0, and of the other keys, in the order
  of the histogram; the running sum of a list of doubles; the quotient of a count by
  the total.
\<close>

definition counts_ending_in_0 :: "histogram \<Rightarrow> int list" where
  "counts_ending_in_0 cs = map snd (filter (\<lambda>(k, c). k = [] \<or> last k = CHR ''0'') cs)"

definition counts_ending_in_1 :: "histogram \<Rightarrow> int list" where
  "counts_ending_in_1 cs = map snd (filter (\<lambda>(k, c). \<not> (k = [] \<or> last k = CHR ''0'')) cs)"

definition double_sum :: "double \<Rightarrow> double list \<Rightarrow> double" where
  "double_sum start qs = foldl double_add start qs"

definition rounded_quotient :: "int \<Rightarrow> int \<Rightarrow> double" where
  "rounded_quotient tot c = round_to_double (of_int c / of_int tot)"

definition is_nonnegative :: "double \<Rightarrow> bool" where
  \<comment> \<open>a number that is at least 0, or the positive infinity\<close>
  "is_nonnegative x = (case x of Double y \<Rightarrow> 0 \<le> y | Pos_Infinity \<Rightarrow> True | _ \<Rightarrow> False)"

text \<open>
  An experiment in which four measurements raise \<open>prob_0\<close> from 16/32 to 17/32, and
  one in which they raise it from 12/100 to 17/100.
\<close>

definition zeno_scenario :: "histogram \<Rightarrow> histogram \<Rightarrow> int \<Rightarrow> zeno_experiment" where
  "zeno_scenario unobserved_counts zeno_counts shots =
     \<lparr>experiment_results =
        (case process_zeno_result ''unobserved'' 0 unobserved_counts pi shots of
           Inl e \<Rightarrow> [] | Inr r \<Rightarrow> [r])
        @ (case process_zeno_result ''zeno'' 4 zeno_counts pi shots of
             Inl e \<Rightarrow> [] | Inr r \<Rightarrow> [r]),
      job_id = ''job'', backend = ''backend'', experiment_total_angle = pi,
      experiment_shots = shots\<rparr>"

definition margin_scenario :: zeno_experiment where
  "margin_scenario = zeno_scenario [(''0'', 16), (''1'', 16)] [(''0'', 17), (''1'', 15)] 32"

definition boundary_scenario :: zeno_experiment where
  "boundary_scenario = zeno_scenario [(''0'', 12), (''1'', 88)] [(''0'', 17), (''1'', 83)] 100"


section \<open>The result decoder (extract_counts, the same in every script)\<close>

text \<open>
  The result object is opaque to the scripts.  What \<open>extract_counts\<close> observes of it,
  each observation having one outcome however often it is made:
  \<^item> reading \<open>pub_result.data\<close> raises an exception (\<open>AttributeError\<close> when there is no
    such attribute) or gives the data object;
  \<^item> reading an attribute of the data object by name raises an exception
    (\<open>AttributeError\<close> for a name that is not an attribute) or gives a value;
  \<^item> \<open>dir\<close> of the data object raises or gives a list of names;
  \<^item> a value is \<open>None\<close>, or an object without an attribute \<open>get_counts\<close>, or an object
    whose \<open>get_counts\<close>, when read and called, returns a histogram or raises
    (\<open>TypeError\<close> when the attribute is not callable).
  The exception classes stand for themselves and their subclasses; \<open>KeyboardInterrupt\<close>
  stands for the exceptions that are no \<open>Exception\<close>.
\<close>

datatype get_counts_call = Returns histogram | Raises py_error

datatype py_object = PyNone | Object "get_counts_call option"

datatype attribute = Attr_Raises py_error | Attr_Value py_object

record data_bin =
  attributes :: "(string \<times> attribute) list"
  dir_listing :: "py_error + string list"

datatype pub_result = Data_Raises py_error | Data data_bin

definition getattr_plain :: "data_bin \<Rightarrow> string \<Rightarrow> py_error + py_object" where
  \<comment> \<open>\<open>getattr(pub_result.data, name)\<close>\<close>
  "getattr_plain d name =
     (case map_of (attributes d) name of
        None \<Rightarrow> Inl AttributeError
      | Some (Attr_Raises e) \<Rightarrow> Inl e
      | Some (Attr_Value obj) \<Rightarrow> Inr obj)"

definition getattr_default :: "data_bin \<Rightarrow> string \<Rightarrow> py_error + py_object" where
  \<comment> \<open>\<open>getattr(pub_result.data, name, None)\<close>: the default replaces an
      \<open>AttributeError\<close> and no other exception\<close>
  "getattr_default d name =
     (case getattr_plain d name of
        Inl e \<Rightarrow> if e = AttributeError then Inr PyNone else Inl e
      | Inr obj \<Rightarrow> Inr obj)"

definition call_get_counts :: "py_object \<Rightarrow> py_error + histogram" where
  \<comment> \<open>\<open>data.get_counts()\<close>\<close>
  "call_get_counts obj =
     (case obj of
        PyNone \<Rightarrow> Inl AttributeError
      | Object None \<Rightarrow> Inl AttributeError
      | Object (Some (Returns h)) \<Rightarrow> Inr h
      | Object (Some (Raises e)) \<Rightarrow> Inl e)"

definition hasattr_get_counts :: "py_object \<Rightarrow> bool" where
  \<comment> \<open>\<open>hasattr(data, "get_counts")\<close>\<close>
  "hasattr_get_counts obj = (case obj of Object (Some call) \<Rightarrow> True | _ \<Rightarrow> False)"

definition creg_name :: "string list \<Rightarrow> string" where
  \<comment> \<open>\<open>circuit.cregs[0].name if circuit.cregs else "c"\<close>, on the names of the circuit's
      classical registers\<close>
  "creg_name cregs = (if cregs \<noteq> [] then hd cregs else ''c'')"

text \<open>
  The body of a \<open>try\<close> block returns a histogram, raises, or reaches its end.  The
  \<open>except\<close> clause of the block turns an exception of a class it names into
  \<open>pass\<close>; any other exception leaves the function.
\<close>

datatype block_end = Return histogram | Raise py_error | Pass

definition except_clause :: "(py_error \<Rightarrow> bool) \<Rightarrow> block_end \<Rightarrow> block_end" where
  "except_clause caught body =
     (case body of Raise e \<Rightarrow> if caught e then Pass else Raise e | _ \<Rightarrow> body)"

definition attribute_or_index_error :: "py_error \<Rightarrow> bool" where
  \<comment> \<open>\<open>except (AttributeError, IndexError)\<close>\<close>
  "attribute_or_index_error e = (e = AttributeError \<or> e = IndexError)"

definition attribute_error :: "py_error \<Rightarrow> bool" where
  \<comment> \<open>\<open>except AttributeError\<close>\<close>
  "attribute_error e = (e = AttributeError)"

definition is_Exception :: "py_error \<Rightarrow> bool" where
  \<comment> \<open>\<open>except Exception\<close>\<close>
  "is_Exception e = (e \<noteq> KeyboardInterrupt)"

definition return_get_counts :: "py_object \<Rightarrow> block_end" where
  \<comment> \<open>\<open>return data.get_counts()\<close>\<close>
  "return_get_counts obj = (case call_get_counts obj of Inr h \<Rightarrow> Return h | Inl e \<Rightarrow> Raise e)"

definition primary_body :: "pub_result \<Rightarrow> string list \<Rightarrow> block_end" where
  "primary_body pub_result cregs =
     (case pub_result of
        Data_Raises e \<Rightarrow> Raise e
      | Data d \<Rightarrow>
          (case getattr_default d (creg_name cregs) of
             Inl e \<Rightarrow> Raise e
           | Inr data \<Rightarrow> if data \<noteq> PyNone then return_get_counts data else Pass))"

fun probe_names :: "pub_result \<Rightarrow> string list \<Rightarrow> block_end" where
  "probe_names pub_result [] = Pass"
| "probe_names pub_result (name # names) =
     (case pub_result of
        Data_Raises e \<Rightarrow> Raise e
      | Data d \<Rightarrow>
          (case getattr_default d name of
             Inl e \<Rightarrow> Raise e
           | Inr data \<Rightarrow>
               if data \<noteq> PyNone then return_get_counts data
               else probe_names pub_result names))"

definition conventional_names :: "string list" where
  "conventional_names = [''meas'', ''c'', ''c0'']"

definition startswith_underscore :: "string \<Rightarrow> bool" where
  "startswith_underscore attr = (case attr of [] \<Rightarrow> False | ch # _ \<Rightarrow> ch = CHR ''_'')"

fun scan_attrs :: "data_bin \<Rightarrow> string list \<Rightarrow> block_end" where
  "scan_attrs d [] = Pass"
| "scan_attrs d (attr # attrs) =
     (if \<not> startswith_underscore attr then
        (case getattr_plain d attr of
           Inl e \<Rightarrow> Raise e
         | Inr data \<Rightarrow>
             if hasattr_get_counts data then return_get_counts data
             else scan_attrs d attrs)
      else scan_attrs d attrs)"

definition scan_body :: "pub_result \<Rightarrow> block_end" where
  "scan_body pub_result =
     (case pub_result of
        Data_Raises e \<Rightarrow> Raise e
      | Data d \<Rightarrow>
          (case dir_listing d of
             Inl e \<Rightarrow> Raise e
           | Inr listing \<Rightarrow> scan_attrs d listing))"

definition extract_counts :: "pub_result \<Rightarrow> string list \<Rightarrow> py_error + histogram" where
  "extract_counts pub_result cregs =
     (case except_clause attribute_or_index_error (primary_body pub_result cregs) of
        Return h \<Rightarrow> Inr h
      | Raise e \<Rightarrow> Inl e
      | Pass \<Rightarrow>
          (case except_clause attribute_error (probe_names pub_result conventional_names) of
             Return h \<Rightarrow> Inr h
           | Raise e \<Rightarrow> Inl e
           | Pass \<Rightarrow>
               (case except_clause is_Exception (scan_body pub_result) of
                  Return h \<Rightarrow> Inr h
                | Raise e \<Rightarrow> Inl e
                | Pass \<Rightarrow> Inr [])))"

text \<open>
  The decoder in the specification's words: an ordered list of candidates, the primary
  label, then \<open>meas\<close>, \<open>c\<close>, \<open>c0\<close>, then every listed field whose name does not start
  with an underscore; the first candidate whose field yields a histogram decides, and
  with no such candidate the result is the empty mapping.
\<close>

definition usable :: "py_object \<Rightarrow> histogram option" where
  "usable obj = (case obj of Object (Some (Returns h)) \<Rightarrow> Some h | _ \<Rightarrow> None)"

definition usable_field :: "data_bin \<Rightarrow> string \<Rightarrow> histogram option" where
  "usable_field d name = (case getattr_default d name of Inr obj \<Rightarrow> usable obj | Inl e \<Rightarrow> None)"

fun first_usable :: "data_bin \<Rightarrow> string list \<Rightarrow> histogram option" where
  "first_usable d [] = None"
| "first_usable d (name # names) =
     (case usable_field d name of
        Some h \<Rightarrow> Some h
      | None \<Rightarrow> first_usable d names)"

definition listed_names :: "data_bin \<Rightarrow> string list" where
  "listed_names d = (case dir_listing d of Inl e \<Rightarrow> [] | Inr listing \<Rightarrow> listing)"

definition scan_chain :: "data_bin \<Rightarrow> histogram" where
  "scan_chain d =
     (case first_usable d (filter (\<lambda>attr. \<not> startswith_underscore attr) (listed_names d)) of
        Some h \<Rightarrow> h
      | None \<Rightarrow> [])"

definition fallback_chain :: "data_bin \<Rightarrow> string \<Rightarrow> histogram" where
  "fallback_chain d primary =
     (case first_usable d
             ([primary] @ conventional_names
              @ filter (\<lambda>attr. \<not> startswith_underscore attr) (listed_names d)) of
        Some h \<Rightarrow> h
      | None \<Rightarrow> [])"

text \<open>
  The chain as the code runs it on a result on which nothing raises: the probe of
  \<open>meas\<close>, \<open>c\<close>, \<open>c0\<close> ends at the first of them that is present (not absent and not
  \<open>None\<close>); if that field yields no histogram, the later labels are not probed and
  the scan of the listed names decides.
\<close>

definition present :: "data_bin \<Rightarrow> string \<Rightarrow> bool" where
  "present d name = (getattr_default d name \<noteq> Inr PyNone)"

definition probe_chain :: "data_bin \<Rightarrow> string \<Rightarrow> histogram" where
  "probe_chain d primary =
     (case usable_field d primary of
        Some h \<Rightarrow> h
      | None \<Rightarrow>
          (case find (present d) conventional_names of
             None \<Rightarrow> scan_chain d
           | Some name \<Rightarrow>
               (case usable_field d name of Some h \<Rightarrow> h | None \<Rightarrow> scan_chain d)))"

text \<open>
  Conditions on a result object.  \<open>calm\<close>: nothing raises, that is, every attribute has
  a value whose accessor, if there is one, returns, and \<open>dir\<close> lists names of
  attributes.  \<open>orderly\<close>: calm, and none of \<open>meas\<close>, \<open>c\<close>, \<open>c0\<close> is an object without
  the accessor.  \<open>quiet\<close>: whatever is raised is raised where it is caught.
\<close>

definition raises :: "py_object \<Rightarrow> bool" where
  "raises obj = (case obj of Object (Some (Raises e)) \<Rightarrow> True | _ \<Rightarrow> False)"

definition calm_attribute :: "attribute \<Rightarrow> bool" where
  "calm_attribute a = (case a of Attr_Raises e \<Rightarrow> False | Attr_Value obj \<Rightarrow> \<not> raises obj)"

definition calm :: "data_bin \<Rightarrow> bool" where
  "calm d =
     (list_all (\<lambda>field. calm_attribute (snd field)) (attributes d)
      \<and> (case dir_listing d of
            Inl e \<Rightarrow> False
          | Inr listing \<Rightarrow> list_all (\<lambda>name. name \<in> fst ` set (attributes d)) listing))"

definition orderly :: "data_bin \<Rightarrow> bool" where
  "orderly d =
     (calm d
      \<and> list_all (\<lambda>name. getattr_default d name \<noteq> Inr (Object None)) conventional_names)"

definition raises_only :: "(py_error \<Rightarrow> bool) \<Rightarrow> py_object \<Rightarrow> bool" where
  "raises_only caught obj = (case obj of Object (Some (Raises e)) \<Rightarrow> caught e | _ \<Rightarrow> True)"

definition reads_quietly :: "(py_error \<Rightarrow> bool) \<Rightarrow> data_bin \<Rightarrow> string \<Rightarrow> bool" where
  "reads_quietly caught d name =
     (case getattr_default d name of Inl e \<Rightarrow> caught e | Inr obj \<Rightarrow> raises_only caught obj)"

definition scans_quietly :: "data_bin \<Rightarrow> bool" where
  "scans_quietly d =
     ((case dir_listing d of Inl e \<Rightarrow> is_Exception e | Inr listing \<Rightarrow> True)
      \<and> list_all (\<lambda>field. case snd field of
                             Attr_Raises e \<Rightarrow> is_Exception e
                           | Attr_Value obj \<Rightarrow> raises_only is_Exception obj)
           (attributes d))"

definition quiet :: "pub_result \<Rightarrow> string \<Rightarrow> bool" where
  "quiet pub_result primary =
     (case pub_result of
        Data_Raises e \<Rightarrow> e = AttributeError
      | Data d \<Rightarrow>
          reads_quietly attribute_or_index_error d primary
          \<and> list_all (reads_quietly attribute_error d) conventional_names
          \<and> scans_quietly d)"

definition nothing_usable :: "data_bin \<Rightarrow> bool" where
  "nothing_usable d =
     list_all (\<lambda>field. case snd field of Attr_Raises e \<Rightarrow> True | Attr_Value obj \<Rightarrow> usable obj = None)
       (attributes d)"


section \<open>Theorems\<close>

subsection \<open>CHSH\<close>

lemma chsh_scenario_correlators:
  "setting_correlator (chsh_scenario shots) ''A0B0'' = Inr 1"
  "setting_correlator (chsh_scenario shots) ''A0B1'' = Inr 1"
  "setting_correlator (chsh_scenario shots) ''A1B0'' = Inr 1"
  "setting_correlator (chsh_scenario shots) ''A1B1'' = Inr (- 1)"
  by (simp_all add: setting_correlator_def chsh_scenario_def process_result_def
      total_counts_def dict_values_sum_def dict_index_def bind_result_def
      calculate_correlator_def outcome_percentages_def dict_get_def py_truediv_def)

text \<open>
  C1.  With the histograms \<open>{"00":500,"11":500}\<close> for A0B0, A0B1 and A1B0 and
  \<open>{"01":500,"10":500}\<close> for A1B1, each of total 1000, the correlators are 1, 1, 1
  and -1, the CHSH value is 4, and the analysis reports the violation, since
  \<open>|S|\<close> exceeds the classical bound 2.
\<close>

theorem chsh_end_to_end:
  "total_counts [(''00'', 500), (''11'', 500)] shots = 1000
   \<and> total_counts [(''01'', 500), (''10'', 500)] shots = 1000
   \<and> chsh_analyze_results (chsh_scenario shots) =
       Inr \<lparr>E_A0B0 = 1, E_A0B1 = 1, E_A1B0 = 1, E_A1B1 = - 1, S_value = 4,
            chsh_result = Bell_Inequality_Violated\<rparr>
   \<and> \<bar>4::real\<bar> > classical_bound"
  by (simp add: chsh_analyze_results_def chsh_scenario_correlators bind_result_def
      classical_bound_def total_counts_def dict_values_sum_def)

subsection \<open>The Zeno predictor\<close>

text \<open>
  C2.  The predictor returns \<open>cos\<^sup>2(\<theta>/(2N))^N\<close> for every \<open>N \<ge> 1\<close> and
  \<open>cos\<^sup>2(\<theta>/2)\<close> for \<open>N = 0\<close>.
\<close>

theorem theoretical_zeno_probability_formula:
  "(1 \<le> N \<longrightarrow>
      theoretical_zeno_probability N \<theta> = Finite (((cos (\<theta> / (2 * of_int N)))\<^sup>2) ^ nat N))
   \<and> theoretical_zeno_probability 0 \<theta> = Finite ((cos (\<theta> / 2))\<^sup>2)"
  by (simp add: theoretical_zeno_probability_def np_power_def Let_def mult.commute)

theorem theoretical_zeno_probability_formula_witness:
  "theoretical_zeno_probability 1 pi = Finite 0
   \<and> theoretical_zeno_probability 2 pi = Finite (1 / 4)
   \<and> theoretical_zeno_probability 0 pi = Finite 0"
  using theoretical_zeno_probability_formula [of 1 pi]
    theoretical_zeno_probability_formula [of 2 pi]
  by (simp add: cos_45 power2_eq_square power_divide)

subsection \<open>The Zeno circuit generators\<close>

lemma shape_append: "shape (xs @ ys) = shape xs @ shape ys"
  by (induction xs rule: shape.induct) simp_all

lemma shape_zeno_steps:
  "shape (concat (map (zeno_step a n) is))
   = concat (replicate (length is) [Rotation a, Measurement, Reset_State])"
  by (induction "is") (simp_all add: zeno_step_def shape_append)

lemma shape_survival_steps:
  "shape (concat (map (survival_step a) is))
   = concat (replicate (length is) [Rotation a, Measurement])"
  by (induction "is") (simp_all add: survival_step_def shape_append)

lemma measures_survival_steps:
  "[c. Measure q c \<leftarrow> concat (map (survival_step a) is)] = is"
  by (induction "is") (simp_all add: survival_step_def)

text \<open>
  C5, as amended.  For every \<open>N \<ge> 1\<close> the staged circuit of \<open>create_zeno_circuit\<close>
  consists of exactly \<open>N\<close> steps (rotation by \<open>\<theta>/N\<close>, measure, reset) followed by one
  final rotation by \<open>\<theta>/N\<close> and a measurement with no reset after it.  The survival
  variant consists of \<open>N\<close> steps (rotation by \<open>\<theta>/(N+1)\<close>, measure) with no reset,
  followed by a final rotation by \<open>\<theta>/(N+1)\<close> and a measurement; its measurements go to
  the classical bits \<open>0, \<dots>, N\<close> in order.
\<close>

theorem staged_circuit_shapes:
  assumes "1 \<le> N"
  shows "(\<exists>qc. create_zeno_circuit N \<theta> = Inr qc
            \<and> shape (instructions qc) = staged_shape (nat N) \<theta>)
       \<and> (\<exists>qc. create_survival_zeno_circuit N \<theta> = Inr qc
            \<and> shape (instructions qc) = survival_shape (nat N) \<theta>
            \<and> [c. Measure q c \<leftarrow> instructions qc] = [0..<nat N + 1])"
proof
  from assms have N: "real_of_int N \<noteq> 0" "real (nat N) = real_of_int N" by simp_all
  show "\<exists>qc. create_zeno_circuit N \<theta> = Inr qc
           \<and> shape (instructions qc) = staged_shape (nat N) \<theta>"
    using N
    by (simp add: create_zeno_circuit_def py_truediv_def bind_result_def staged_shape_def
        shape_append shape_zeno_steps)
  from assms have M: "real_of_int N + 1 \<noteq> 0" "1 + real_of_int N \<noteq> 0" by linarith+
  show "\<exists>qc. create_survival_zeno_circuit N \<theta> = Inr qc
           \<and> shape (instructions qc) = survival_shape (nat N) \<theta>
           \<and> [c. Measure q c \<leftarrow> instructions qc] = [0..<nat N + 1]"
    using assms N M
    by (simp add: create_survival_zeno_circuit_def py_truediv_def bind_result_def
        survival_shape_def shape_append shape_survival_steps measures_survival_steps
        add.commute)
qed

theorem staged_circuit_shapes_witness:
  "(\<exists>qc. create_zeno_circuit 2 pi = Inr qc
        \<and> shape (instructions qc) = staged_shape 2 pi)
   \<and> (\<exists>qc. create_survival_zeno_circuit 2 pi = Inr qc
        \<and> shape (instructions qc) = survival_shape 2 pi
        \<and> [c. Measure q c \<leftarrow> instructions qc] = [0..<3])"
  using staged_circuit_shapes [of 2 pi] by simp

text \<open>
  The survival variant with one checkpoint and total angle 1 rotates by 1/2, not by 1,
  and resets nothing: it does not have the staged shape.
\<close>

theorem survival_circuit_not_staged:
  "map_sum id (\<lambda>qc. shape (instructions qc)) (create_survival_zeno_circuit 1 1)
     = Inr [Rotation (1 / 2), Measurement, Rotation (1 / 2), Measurement]
   \<and> staged_shape 1 1 = [Rotation 1, Measurement, Reset_State, Rotation 1, Measurement]
   \<and> map_sum id (\<lambda>qc. shape (instructions qc)) (create_survival_zeno_circuit 1 1)
     \<noteq> Inr (staged_shape 1 1)"
  by (simp add: create_survival_zeno_circuit_def py_truediv_def bind_result_def
      staged_shape_def survival_step_def)

text \<open>
  With every requested measurement count at least 1 the generator stage returns: the
  unobserved circuit, then one staged circuit per count.
\<close>

lemma staged_circuits_positive:
  "list_all (\<lambda>n. 1 \<le> n) ns \<Longrightarrow> \<exists>qcs. staged_circuits ns \<theta> = Inr qcs \<and> length qcs = length ns"
  by (induction ns)
     (auto simp: create_zeno_circuit_def py_truediv_def bind_result_def)

text \<open>
  C6.  The claim is that a measurement count of 0 never reaches the staged generator.
  \<open>run_zeno_experiment\<close> calls the staged generator on every entry of
  \<open>measurement_counts\<close>, so an entry 0 reaches the division \<open>total_angle / 0\<close>.
\<close>

theorem zeno_experiment_zero_count:
  "create_zeno_circuit 0 \<theta> = Inl ZeroDivisionError
   \<and> zeno_experiment_circuits [0] \<theta> = Inl ZeroDivisionError
   \<and> zeno_experiment_circuits [1, 0, 4] \<theta> = Inl ZeroDivisionError"
  by (simp add: zeno_experiment_circuits_def create_zeno_circuit_def py_truediv_def
      bind_result_def)

subsection \<open>GHZ parity\<close>

lemma count_ones_count_list: "count_ones k = count_list k (CHR ''1'')"
  by (induction k) (simp_all add: count_ones_def)

lemma dict_get_distinct:
  "distinct (map fst (cs :: histogram)) \<Longrightarrow> (k, v) \<in> set cs \<Longrightarrow> dict_get cs k d = v"
  by (simp add: dict_get_def)

lemma sum_over_keys:
  assumes "distinct (map fst (cs :: histogram))"
  shows "sum_list (map (\<lambda>k. dict_get cs k 0) (filter P (map fst cs)))
         = sum_list (map snd (filter (\<lambda>x. P (fst x)) cs))"
proof -
  have "map (\<lambda>k. dict_get cs k (0::int)) (filter P (map fst cs))
        = map (\<lambda>x. dict_get cs (fst x) 0) (filter (\<lambda>x. P (fst x)) cs)"
    by (simp add: filter_map comp_def)
  also have "\<dots> = map snd (filter (\<lambda>x. P (fst x)) cs)"
    using assms by (intro map_cong) (auto simp: dict_get_distinct)
  finally show ?thesis by simp
qed

lemma sum_list_filter_split:
  "sum_list (map snd (filter P cs)) + sum_list (map snd (filter (\<lambda>x. \<not> P x) cs))
   = sum_list (map snd (cs :: (string \<times> int) list))"
  by (induction cs) auto

text \<open>
  With the keys of the histogram distinct, as the keys of a \<open>dict\<close> are, the even
  count is the sum of the counts of the keys with an even number of characters \<open>1\<close>,
  the odd count that of the keys with an odd number, and the two add up to the sum of
  all counts: every key is counted in exactly one class.
\<close>

lemma parity_counts:
  assumes "distinct (map fst cs)"
  shows "even_count cs
           = sum_list (map snd (filter (\<lambda>x. even (count_list (fst x) (CHR ''1''))) cs))"
    and "odd_count cs
           = sum_list (map snd (filter (\<lambda>x. odd (count_list (fst x) (CHR ''1''))) cs))"
    and "even_count cs + odd_count cs = dict_values_sum cs"
proof -
  have ev: "(\<lambda>x::string \<times> int. count_ones (fst x) mod 2 = 0)
            = (\<lambda>x. even (count_list (fst x) (CHR ''1'')))"
    by (rule ext) (simp add: count_ones_count_list even_iff_mod_2_eq_zero)
  have od: "(\<lambda>x::string \<times> int. count_ones (fst x) mod 2 = 1)
            = (\<lambda>x. odd (count_list (fst x) (CHR ''1'')))"
    by (rule ext) (simp add: count_ones_count_list odd_iff_mod_2_eq_one)
  show e: "even_count cs
           = sum_list (map snd (filter (\<lambda>x. even (count_list (fst x) (CHR ''1''))) cs))"
    unfolding even_count_def sum_over_keys [OF assms] ev ..
  show o: "odd_count cs
           = sum_list (map snd (filter (\<lambda>x. odd (count_list (fst x) (CHR ''1''))) cs))"
    unfolding odd_count_def sum_over_keys [OF assms] od ..
  show "even_count cs + odd_count cs = dict_values_sum cs"
    unfolding e o dict_values_sum_def by (rule sum_list_filter_split)
qed

lemma parity_counts_example:
  "even_count [(''011'', 30), (''111'', 10), (''100'', 2)] = 30
   \<and> odd_count [(''011'', 30), (''111'', 10), (''100'', 2)] = 12"
  by (simp add: even_count_def odd_count_def count_ones_def dict_get_def)

text \<open>
  The histogram \<open>{"000":100}\<close> has total 100, odd-parity fraction 0 and even-parity
  fraction 1; in the whole analysis the scenario gives \<open>xxx_odd = 0\<close>, which is not
  above 0.5: the verdict is the degraded signal.
\<close>

lemma ghz_scenario_fractions:
  "total_counts [(''000'', 100)] shots = 100
   \<and> odd_fraction [(''000'', 100)] (total_counts [(''000'', 100)] shots) = Inr 0
   \<and> even_fraction [(''000'', 100)] (total_counts [(''000'', 100)] shots) = Inr 1"
  by (simp add: total_counts_def dict_values_sum_def odd_fraction_def even_fraction_def
      odd_count_def even_count_def count_ones_def py_truediv_def dict_get_def)

lemma ghz_scenario_analysis:
  "map_sum id (\<lambda>a. (xxx_odd a, ghz_result a)) (ghz_analyze_results (ghz_scenario shots))
   = Inr (0, Signal_Degraded)"
  by (simp add: ghz_analyze_results_def ghz_scenario_def process_result_def total_counts_def
      dict_values_sum_def dict_index_def bind_result_def outcome_percentages_def
      parity_measurement_def basis_fraction_def even_fraction_def odd_fraction_def
      even_count_def odd_count_def count_ones_def dict_get_def py_truediv_def)

text \<open>
  C8.  The claim is that for every histogram each class is reported as its fraction of
  the total.  The classes are as claimed, and so are the fractions of the histogram
  \<open>{"000":100}\<close>.  But a histogram whose counts are all 0 is stored with total 0, and
  both fractions divide by it: for \<open>{"000": 0}\<close> no fraction is reported, the analysis
  raises \<open>ZeroDivisionError\<close>.
\<close>

theorem parity_zero_total:
  "total_counts [(''000'', 0)] shots = 0
   \<and> even_fraction [(''000'', 0)] (total_counts [(''000'', 0)] shots) = Inl ZeroDivisionError
   \<and> odd_fraction [(''000'', 0)] (total_counts [(''000'', 0)] shots) = Inl ZeroDivisionError
   \<and> parity_measurement [(''XXX'', process_result [(''000'', 0)] shots)] ''XXX''
       = Inl ZeroDivisionError
   \<and> basis_fraction odd_fraction [(''XXX'', process_result [(''000'', 0)] shots)] ''XXX''
       = Inl ZeroDivisionError"
  by (simp add: total_counts_def dict_values_sum_def even_fraction_def odd_fraction_def
      py_truediv_def parity_measurement_def basis_fraction_def process_result_def
      dict_index_def bind_result_def)

subsection \<open>Pigeonhole sharing\<close>

lemma zfill_length: "width \<le> length (zfill s width)"
  by (auto simp: zfill_def split: list.splits)

lemma sharing_loop_closed:
  "sharing_loop cs acc =
     \<lparr>pair_01_share = pair_01_share acc + sum_list (map (share_weight (\<lambda>a b c. a = b)) cs),
      pair_12_share = pair_12_share acc + sum_list (map (share_weight (\<lambda>a b c. b = c)) cs),
      pair_02_share = pair_02_share acc + sum_list (map (share_weight (\<lambda>a b c. a = c)) cs),
      any_share = any_share acc
                  + sum_list (map (share_weight (\<lambda>a b c. a = b \<or> b = c \<or> a = c)) cs)\<rparr>"
proof (induction cs arbitrary: acc)
  case Nil
  then show ?case by simp
next
  case (Cons x cs)
  obtain k c where x: "x = (k, c)" by (cases x)
  show ?case
    by (simp add: x Cons.IH sharing_step_def share_weight_def Let_def)
qed

lemma sum_list_mset_cong:
  "mset xs = mset ys \<Longrightarrow> sum_list (map f xs) = (sum_list (map f ys) :: int)"
proof -
  assume "mset xs = mset ys"
  then have "mset (map f xs) = mset (map f ys)" by (metis mset_map)
  then show ?thesis by (metis sum_mset_sum_list)
qed

lemma uniform_weights:
  "sum_list (map (share_weight (\<lambda>a b c. a = b)) (uniform_histogram w)) = 4 * w"
  "sum_list (map (share_weight (\<lambda>a b c. b = c)) (uniform_histogram w)) = 4 * w"
  "sum_list (map (share_weight (\<lambda>a b c. a = c)) (uniform_histogram w)) = 4 * w"
  "sum_list (map (share_weight (\<lambda>a b c. a = b \<or> b = c \<or> a = c)) (uniform_histogram w)) = 8 * w"
  "sum_list (map snd (uniform_histogram w)) = 8 * w"
  by (simp_all add: uniform_histogram_def three_bit_outcomes_def share_weight_def zfill_def)

text \<open>
  Three characters over two symbols: some pair is equal, so every three-bit outcome
  counts toward "at least one pair equal".
\<close>

lemma pigeonhole_bits:
  assumes "length k = 3" and "set k \<subseteq> {CHR ''0'', CHR ''1''}"
  shows "share_weight (\<lambda>a b c. a = b \<or> b = c \<or> a = c) (k, cnt) = cnt"
proof -
  from assms(1) obtain a b c where k: "k = [a, b, c]"
    by (cases k; cases "tl k"; cases "tl (tl k)") auto
  with assms(2) show ?thesis
    by (auto simp: share_weight_def zfill_def)
qed

text \<open>
  C9.  For a histogram that holds each of the eight three-bit outcomes once, all with
  the same positive count \<open>w\<close>, in any order, the total is \<open>8w\<close>, every pair of
  positions holds equal bits in half of the weight, and the fraction of weight where at
  least one pair is equal is exactly 1.
\<close>

theorem pigeonhole_uniform:
  assumes "0 < w" and "mset cs = mset (uniform_histogram w)"
  shows "total_counts cs shots = 8 * w
         \<and> analyze_sharing cs (total_counts cs shots)
             = Inr \<lparr>pair_01 = 1 / 2, pair_12 = 1 / 2, pair_02 = 1 / 2, any_pair = 1\<rparr>"
proof -
  have ne: "cs \<noteq> []"
    using assms(2) by (auto simp: uniform_histogram_def three_bit_outcomes_def)
  have "dict_values_sum cs = 8 * w"
    unfolding dict_values_sum_def
    using sum_list_mset_cong [OF assms(2), of snd] uniform_weights(5) by simp
  then have tot: "total_counts cs shots = 8 * w"
    using ne by (simp add: total_counts_def)
  have w: "sum_list (map (share_weight (\<lambda>a b c. a = b)) cs) = 4 * w"
    "sum_list (map (share_weight (\<lambda>a b c. b = c)) cs) = 4 * w"
    "sum_list (map (share_weight (\<lambda>a b c. a = c)) cs) = 4 * w"
    "sum_list (map (share_weight (\<lambda>a b c. a = b \<or> b = c \<or> a = c)) cs) = 8 * w"
    using sum_list_mset_cong [OF assms(2)] uniform_weights by simp_all
  from assms(1) have wr: "real_of_int w \<noteq> 0" by simp
  show ?thesis
    using wr by (simp add: tot analyze_sharing_def sharing_loop_closed w py_truediv_def
        bind_result_def)
qed

theorem pigeonhole_uniform_witness:
  "total_counts (rev (uniform_histogram 512)) 100 = 4096
   \<and> analyze_sharing (rev (uniform_histogram 512)) (total_counts (rev (uniform_histogram 512)) 100)
     = Inr \<lparr>pair_01 = 1 / 2, pair_12 = 1 / 2, pair_02 = 1 / 2, any_pair = 1\<rparr>"
  using pigeonhole_uniform [of 512 "rev (uniform_histogram 512)" 100] by auto

subsection \<open>The total of an empty histogram\<close>

text \<open>
  An empty histogram takes the shot count as its total, and every count read from it
  is 0; with a shot count other than 0 the CHSH correlator of an empty histogram is 0.
\<close>

lemma empty_histogram_total:
  "total_counts [] shots = shots \<and> dict_get ([] :: histogram) k 0 = 0"
  by (simp add: total_counts_def dict_get_def)

lemma empty_histogram_correlator:
  "shots \<noteq> 0 \<Longrightarrow> calculate_correlator [] (total_counts [] shots) = Inr 0"
  by (simp add: calculate_correlator_def total_counts_def dict_get_def py_truediv_def)

text \<open>
  C4.  The claim is that with the shot count as the total of an empty histogram no
  derived statistic divides by zero, and that no derivation raises on a histogram of
  total 0.  With a shot count of 0 the total of the empty histogram is 0 and the CHSH
  correlator divides by it; so does the correlator of a non-empty histogram whose
  counts are all 0.  The survival probability tests \<open>total_counts > 0\<close> first and is 0
  there.
\<close>

theorem zero_total_division:
  "total_counts [] 0 = 0
   \<and> calculate_correlator [] (total_counts [] 0) = Inl ZeroDivisionError
   \<and> chsh_analyze_results (chsh_no_data 0) = Inl ZeroDivisionError
   \<and> total_counts [(''00'', 0)] 4096 = 0
   \<and> calculate_correlator [(''00'', 0)] (total_counts [(''00'', 0)] 4096) = Inl ZeroDivisionError
   \<and> survival_probability [] 3 0 = 0
   \<and> survival_probability [(''0000'', 0)] 3 4096 = 0"
  by (simp add: total_counts_def dict_values_sum_def calculate_correlator_def dict_get_def
      py_truediv_def chsh_analyze_results_def chsh_no_data_def setting_correlator_def
      process_result_def dict_index_def bind_result_def survival_probability_def)

subsection \<open>Rounding to a double\<close>

lemmas rounding_defs =
  round_to_double_def binary_exponent_def pow2_def round_half_even_def float_literal_def Let_def

lemma round_half_even_le: "r \<le> of_int M \<Longrightarrow> round_half_even r \<le> M"
proof -
  assume r: "r \<le> of_int M"
  then have f: "\<lfloor>r\<rfloor> \<le> M" by (simp add: floor_le_iff)
  show ?thesis
  proof (cases "\<lfloor>r\<rfloor> = M")
    case True
    with r have "r = of_int \<lfloor>r\<rfloor>" by linarith
    then have "r - of_int \<lfloor>r\<rfloor> = 0" by simp
    then show ?thesis using True by (simp add: round_half_even_def Let_def)
  next
    case False
    with f have "\<lfloor>r\<rfloor> + 1 \<le> M" by simp
    then show ?thesis by (simp add: round_half_even_def Let_def)
  qed
qed

lemma round_half_even_ge: "of_int M \<le> r \<Longrightarrow> M \<le> round_half_even r"
proof -
  assume "of_int M \<le> r"
  then have "M \<le> \<lfloor>r\<rfloor>" by (simp add: le_floor_iff)
  then show ?thesis by (simp add: round_half_even_def Let_def)
qed

lemma exponent_down_le: "exponent_down y e \<le> e"
proof (induction y e rule: exponent_down.induct)
  case (1 y e)
  show ?case
  proof (cases "y \<le> 0 \<or> 1 \<le> y")
    case True
    then show ?thesis by (subst exponent_down.simps) simp
  next
    case False
    then have "exponent_down (y * 2) (e - 1) \<le> e - 1" using 1 by simp
    then show ?thesis using False by (subst exponent_down.simps) simp
  qed
qed

text \<open>A real number between 0 and 1 rounds to a double between 0 and 1.\<close>

lemma round_to_double_unit:
  assumes "0 \<le> x" and "x \<le> 1"
  shows "\<exists>y. round_to_double x = Double y \<and> 0 \<le> y \<and> y \<le> 1"
proof -
  consider "x = 0" | "x = 1" | "0 < x" "x < 1" using assms by linarith
  then show ?thesis
  proof cases
    case 1
    then show ?thesis by (simp add: round_to_double_def)
  next
    case 2
    then show ?thesis by (simp add: rounding_defs)
  next
    case 3
    then have "binary_exponent x = exponent_down x 0"
      by (simp add: binary_exponent_def)
    also have "\<dots> \<le> - 1"
      using 3 exponent_down_le [of "x * 2" "- 1"] by (subst exponent_down.simps) simp
    finally have e: "binary_exponent x \<le> - 1" .
    define e where "e = max (binary_exponent x) (- 1022)"
    define k where "k = nat (52 - e)"
    have "e \<le> - 1" using \<open>binary_exponent x \<le> - 1\<close> by (simp add: e_def)
    then have q: "pow2 (e - 52) = 1 / 2 ^ k" by (simp add: pow2_def k_def)
    define n where "n = round_half_even (x / pow2 (e - 52))"
    have xq: "x / pow2 (e - 52) = x * 2 ^ k" by (simp add: q)
    have "0 \<le> x * 2 ^ k" using 3 by simp
    then have n0: "0 \<le> n"
      using round_half_even_ge [of 0 "x * 2 ^ k"] by (simp add: n_def xq)
    have "x * 2 ^ k \<le> 1 * 2 ^ k" using 3 by (intro mult_right_mono) simp_all
    then have "x * 2 ^ k \<le> of_int (2 ^ k)" by simp
    then have n1: "n \<le> 2 ^ k"
      using round_half_even_le [of "x * 2 ^ k" "2 ^ k"] by (simp add: n_def xq)
    define y where "y = of_int n * pow2 (e - 52)"
    have y: "y = of_int n / 2 ^ k" by (simp add: y_def q)
    have y0: "0 \<le> y" using n0 by (simp add: y)
    have "real_of_int n \<le> 2 ^ k" using n1 by (metis of_int_le_iff of_int_numeral of_int_power)
    then have y1: "y \<le> 1" by (simp add: y)
    have big: "(1::real) < 2 ^ 1024" by simp
    have "round_to_double x = Double y"
      using 3 y0 y1 big
      by (simp add: round_to_double_def Let_def e_def [symmetric] n_def [symmetric]
          y_def [symmetric] del: power_strict_increasing_iff one_less_power)
    then show ?thesis using y0 y1 by blast
  qed
qed

lemma int_truediv_unit:
  assumes "0 \<le> c" and "c \<le> tot" and "0 < tot"
  shows "int_truediv c tot = Inr (rounded_quotient tot c)"
proof -
  have "0 \<le> real_of_int c / real_of_int tot" "real_of_int c / real_of_int tot \<le> 1"
    using assms by simp_all
  then obtain y where "round_to_double (real_of_int c / real_of_int tot) = Double y"
    using round_to_double_unit by blast
  then show ?thesis using assms by (simp add: int_truediv_def rounded_quotient_def)
qed

subsection \<open>The Zeno final-bit marginal\<close>

lemma count_le_sum:
  "list_all (\<lambda>(k, c). 0 \<le> c) cs \<Longrightarrow> (k, c) \<in> set cs \<Longrightarrow> c \<le> dict_values_sum cs"
proof (induction cs)
  case Nil
  then show ?case by simp
next
  case (Cons x cs)
  obtain k' c' where x: "x = (k', c')" by (cases x)
  have rest: "0 \<le> sum_list (map snd cs)"
    using Cons.prems(1) by (intro sum_list_nonneg) (auto simp: list_all_iff)
  show ?case
  proof (cases "(k, c) = x")
    case True
    then show ?thesis using rest x by (simp add: dict_values_sum_def)
  next
    case False
    then have "c \<le> dict_values_sum cs" using Cons by simp
    then show ?thesis using Cons.prems(1) x by (simp add: dict_values_sum_def)
  qed
qed

lemma class_weights_partition:
  "sum_list (counts_ending_in_0 cs) + sum_list (counts_ending_in_1 cs) = dict_values_sum cs"
  by (induction cs) (auto simp: counts_ending_in_0_def counts_ending_in_1_def dict_values_sum_def)

lemma class_weights_nonneg:
  "list_all (\<lambda>(k, c). 0 \<le> c) cs
   \<Longrightarrow> 0 \<le> sum_list (counts_ending_in_0 cs) \<and> 0 \<le> sum_list (counts_ending_in_1 cs)"
  by (induction cs) (auto simp: counts_ending_in_0_def counts_ending_in_1_def)

lemma pow2_pos: "0 < pow2 k"
  by (simp add: pow2_def)

lemma round_to_double_nonneg:
  assumes "0 \<le> x"
  shows "is_nonnegative (round_to_double x)"
proof (cases "x = 0")
  case True
  then show ?thesis by (simp add: round_to_double_def is_nonnegative_def)
next
  case False
  define q where "q = pow2 (max (binary_exponent x) (- 1022) - 52)"
  define y where "y = of_int (round_half_even (x / q)) * q"
  have q: "0 < q" by (simp add: q_def pow2_pos)
  then have "0 \<le> x / q" using assms by simp
  then have "0 \<le> round_half_even (x / q)"
    using round_half_even_ge [of 0 "x / q"] by simp
  then have y: "0 \<le> y" using q by (simp add: y_def)
  have "round_to_double x
        = (if 2 ^ 1024 \<le> y then Pos_Infinity
           else if y \<le> - (2 ^ 1024) then Neg_Infinity else Double y)"
    using False by (simp add: round_to_double_def Let_def q_def y_def)
  moreover have "\<not> y \<le> - (2 ^ 1024)" using y by (simp add: not_le)
  ultimately show ?thesis using y by (simp add: is_nonnegative_def)
qed

lemma double_add_nonneg:
  "is_nonnegative a \<Longrightarrow> is_nonnegative b \<Longrightarrow> is_nonnegative (double_add a b)"
  by (cases a; cases b) (simp_all add: is_nonnegative_def round_to_double_nonneg [unfolded is_nonnegative_def])

lemma double_sum_nonneg:
  "is_nonnegative a \<Longrightarrow> list_all is_nonnegative qs \<Longrightarrow> is_nonnegative (double_sum a qs)"
  unfolding double_sum_def
  by (induction qs arbitrary: a) (simp_all add: double_add_nonneg)

lemma rounded_quotients_nonneg:
  assumes "0 < tot" and "list_all (\<lambda>c. 0 \<le> c) ns"
  shows "list_all is_nonnegative (map (rounded_quotient tot) ns)"
  using assms by (auto simp: list_all_iff rounded_quotient_def intro!: round_to_double_nonneg)

lemma final_bit_loop_closed:
  assumes "0 < tot"
  shows "list_all (\<lambda>(k, c). 0 \<le> c \<and> c \<le> tot) cs \<Longrightarrow>
         final_bit_loop cs tot a b
         = Inr (double_sum a (map (rounded_quotient tot) (counts_ending_in_0 cs)),
                double_sum b (map (rounded_quotient tot) (counts_ending_in_1 cs)))"
proof (induction cs arbitrary: a b)
  case Nil
  then show ?case by (simp add: counts_ending_in_0_def counts_ending_in_1_def double_sum_def)
next
  case (Cons x cs)
  obtain k c where x: "x = (k, c)" by (cases x)
  from Cons.prems x have c: "0 \<le> c" "c \<le> tot" and rest: "list_all (\<lambda>(k, c). 0 \<le> c \<and> c \<le> tot) cs"
    by simp_all
  have q: "int_truediv c tot = Inr (rounded_quotient tot c)"
    using c assms by (rule int_truediv_unit)
  show ?case
    by (simp add: x q Cons.IH [OF rest] bind_result_def counts_ending_in_0_def
        counts_ending_in_1_def double_sum_def Let_def)
qed

text \<open>
  C10, as amended.  For every histogram with non-negative counts and a positive sum,
  \<open>prob_0\<close> is the running sum of doubles, in the order of the histogram, of the
  rounded quotients \<open>count / total\<close> of the keys that are empty or end in \<open>0\<close>, and
  \<open>prob_1\<close> that of the other keys, the total being the sum of the counts.  The exact
  quotients of the two classes lie in \<open>[0,1]\<close> and add up to 1; the computed doubles
  are their rounded sums, and neither is negative or "not a number".  For the empty
  histogram both are 0.
\<close>

theorem final_bit_marginal_sums:
  "(list_all (\<lambda>(k, c). 0 \<le> c) cs \<and> 0 < dict_values_sum cs \<longrightarrow>
      final_bit_marginal cs shots
        = Inr (double_sum (Double 0)
                 (map (rounded_quotient (dict_values_sum cs)) (counts_ending_in_0 cs)),
               double_sum (Double 0)
                 (map (rounded_quotient (dict_values_sum cs)) (counts_ending_in_1 cs)))
      \<and> (let w0 = real_of_int (sum_list (counts_ending_in_0 cs)) / of_int (dict_values_sum cs);
              w1 = real_of_int (sum_list (counts_ending_in_1 cs)) / of_int (dict_values_sum cs)
          in 0 \<le> w0 \<and> w0 \<le> 1 \<and> 0 \<le> w1 \<and> w1 \<le> 1 \<and> w0 + w1 = 1)
      \<and> is_nonnegative (double_sum (Double 0)
            (map (rounded_quotient (dict_values_sum cs)) (counts_ending_in_0 cs)))
      \<and> is_nonnegative (double_sum (Double 0)
            (map (rounded_quotient (dict_values_sum cs)) (counts_ending_in_1 cs))))
   \<and> final_bit_marginal [] shots = Inr (Double 0, Double 0)"
proof (intro conjI impI)
  show "final_bit_marginal [] shots = Inr (Double 0, Double 0)"
    by (simp add: final_bit_marginal_def)
next
  assume H: "list_all (\<lambda>(k, c). 0 \<le> c) cs \<and> 0 < dict_values_sum cs"
  let ?t = "dict_values_sum cs"
  from H have ne: "cs \<noteq> []" by (auto simp: dict_values_sum_def)
  have tot: "total_counts cs shots = ?t" using ne by (simp add: total_counts_def)
  have bounded: "list_all (\<lambda>(k, c). 0 \<le> c \<and> c \<le> ?t) cs"
    using H count_le_sum [of cs] by (auto simp: list_all_iff)
  from H have tpos: "0 < ?t" by simp
  show "final_bit_marginal cs shots
        = Inr (double_sum (Double 0) (map (rounded_quotient ?t) (counts_ending_in_0 cs)),
               double_sum (Double 0) (map (rounded_quotient ?t) (counts_ending_in_1 cs)))"
    using final_bit_loop_closed [OF tpos bounded] by (simp add: final_bit_marginal_def tot)
  from H class_weights_nonneg
  have nn: "0 \<le> sum_list (counts_ending_in_0 cs)" "0 \<le> sum_list (counts_ending_in_1 cs)"
    by blast+
  have part: "sum_list (counts_ending_in_0 cs) + sum_list (counts_ending_in_1 cs) = ?t"
    by (rule class_weights_partition)
  have le: "sum_list (counts_ending_in_0 cs) \<le> ?t" "sum_list (counts_ending_in_1 cs) \<le> ?t"
    using nn part by linarith+
  have rpos: "(0::real) < of_int ?t" using tpos by simp
  have s: "real_of_int (sum_list (counts_ending_in_0 cs)) / of_int ?t
           + real_of_int (sum_list (counts_ending_in_1 cs)) / of_int ?t = 1"
  proof -
    have "real_of_int (sum_list (counts_ending_in_0 cs))
          + real_of_int (sum_list (counts_ending_in_1 cs)) = real_of_int ?t"
      using part by (metis of_int_add)
    then show ?thesis using rpos by (simp add: add_divide_distrib [symmetric])
  qed
  show "let w0 = real_of_int (sum_list (counts_ending_in_0 cs)) / of_int ?t;
            w1 = real_of_int (sum_list (counts_ending_in_1 cs)) / of_int ?t
        in 0 \<le> w0 \<and> w0 \<le> 1 \<and> 0 \<le> w1 \<and> w1 \<le> 1 \<and> w0 + w1 = 1"
    using nn le rpos s by (simp add: Let_def)
  have zero: "is_nonnegative (Double 0)" by (simp add: is_nonnegative_def)
  have "list_all (\<lambda>c. 0 \<le> c) (counts_ending_in_0 cs)"
    using H by (auto simp: list_all_iff counts_ending_in_0_def)
  then show "is_nonnegative (double_sum (Double 0)
      (map (rounded_quotient ?t) (counts_ending_in_0 cs)))"
    using tpos zero by (intro double_sum_nonneg rounded_quotients_nonneg)
  have "list_all (\<lambda>c. 0 \<le> c) (counts_ending_in_1 cs)"
    using H by (auto simp: list_all_iff counts_ending_in_1_def)
  then show "is_nonnegative (double_sum (Double 0)
      (map (rounded_quotient ?t) (counts_ending_in_1 cs)))"
    using tpos zero by (intro double_sum_nonneg rounded_quotients_nonneg)
qed

theorem final_bit_marginal_sums_witness:
  "final_bit_marginal [(''01'', 1), ('''', 2), (''10'', 1)] 4096
     = Inr (Double (3 / 4), Double (1 / 4))
   \<and> is_nonnegative (Double (3 / 4)) \<and> is_nonnegative (Double (1 / 4))
   \<and> final_bit_marginal [] 4096 = Inr (Double 0, Double 0)"
  using final_bit_marginal_sums [of "[(''01'', 1), ('''', 2), (''10'', 1)]" 4096]
  by (simp add: dict_values_sum_def counts_ending_in_0_def counts_ending_in_1_def
      double_sum_def rounded_quotient_def rounding_defs)

text \<open>
  The histogram \<open>{"000": 9, "010": 18, "100": 1}\<close> has total 28 and only keys that end
  in \<open>0\<close>.  The three rounded quotients add up, in doubles, to the double above 1:
  \<open>prob_0\<close> is \<open>1 + 2 ^ -52\<close>, neither at most 1 nor, with \<open>prob_1 = 0\<close>, of sum 1.
\<close>

theorem final_bit_marginal_exceeds_one:
  "final_bit_marginal [(''000'', 9), (''010'', 18), (''100'', 1)] 4096
     = Inr (Double (4503599627370497 / 4503599627370496), Double 0)
   \<and> (1::real) < 4503599627370497 / 4503599627370496"
  by (simp add: final_bit_marginal_def total_counts_def dict_values_sum_def int_truediv_def
      bind_result_def rounding_defs)

text \<open>
  A non-empty histogram whose counts sum to 0 is divided by its own total: the loop
  raises on its first item.
\<close>

lemma final_bit_marginal_zero_total:
  "final_bit_marginal [(''0'', 0)] 4096 = Inl ZeroDivisionError"
  by (simp add: final_bit_marginal_def total_counts_def dict_values_sum_def int_truediv_def
      bind_result_def)

subsection \<open>The Zeno verdict\<close>

lemma double_gt_carry:
  "double_gt a t \<Longrightarrow> \<not> double_gt a m \<Longrightarrow> m \<noteq> Not_a_Number \<Longrightarrow> double_gt m t"
  by (cases a; cases t; cases m) auto

lemma py_max_by_in: "py_max_by key b xs \<in> set (b # xs)"
  by (induction xs arbitrary: b) (simp, force)

lemma py_max_by_init:
  "list_all (\<lambda>x. key x \<noteq> Not_a_Number) (b # xs)
   \<Longrightarrow> \<not> double_gt (key b) (key (py_max_by key b xs))"
proof (induction xs arbitrary: b)
  case Nil
  then show ?case by (cases "key b") simp_all
next
  case (Cons y ys)
  show ?case
  proof (cases "double_gt (key y) (key b)")
    case True
    have "\<not> double_gt (key y) (key (py_max_by key y ys))"
      using Cons.IH [of y] Cons.prems by simp
    moreover have "key (py_max_by key y ys) \<noteq> Not_a_Number"
      using py_max_by_in [of key y ys] Cons.prems by (auto simp: list_all_iff)
    ultimately have "\<not> double_gt (key b) (key (py_max_by key y ys))"
      using True by (cases "key b"; cases "key y"; cases "key (py_max_by key y ys)") auto
    then show ?thesis using True by simp
  next
    case False
    then show ?thesis using Cons.IH [of b] Cons.prems by simp
  qed
qed

lemma py_max_by_ge:
  assumes "list_all (\<lambda>x. key x \<noteq> Not_a_Number) (b # xs)"
  shows "x \<in> set (b # xs) \<Longrightarrow> \<not> double_gt (key x) (key (py_max_by key b xs))"
  using assms
proof (induction xs arbitrary: b)
  case Nil
  then show ?case by (cases "key b") simp_all
next
  case (Cons y ys)
  let ?b' = "if double_gt (key y) (key b) then y else b"
  have all': "list_all (\<lambda>x. key x \<noteq> Not_a_Number) (?b' # ys)"
    using Cons.prems(2) by simp
  have m: "key (py_max_by key ?b' ys) \<noteq> Not_a_Number"
    using py_max_by_in [of key ?b' ys] all' by (auto simp: list_all_iff)
  have init: "\<not> double_gt (key ?b') (key (py_max_by key ?b' ys))"
    by (rule py_max_by_init [OF all'])
  show ?case
  proof (cases "x \<in> set (?b' # ys)")
    case True
    then show ?thesis using Cons.IH [OF True all'] by simp
  next
    case False
    with Cons.prems(1) have xb: "x = b \<or> x = y" by (auto split: if_splits)
    from False Cons.prems(1) have nb: "\<not> double_gt (key x) (key ?b')"
      using Cons.prems(2)
      by (cases "double_gt (key y) (key b)"; cases "key y"; cases "key b") (auto split: if_splits)
    have "\<not> double_gt (key x) (key (py_max_by key ?b' ys))"
      using nb init m Cons.prems(2) xb
      by (cases "key x"; cases "key ?b'"; cases "key (py_max_by key ?b' ys)")
         (auto split: if_splits)
    then show ?thesis by simp
  qed
qed

lemma py_max_by_exceeds:
  assumes "list_all (\<lambda>x. key x \<noteq> Not_a_Number) (b # xs)"
  shows "double_gt (key (py_max_by key b xs)) t = (\<exists>x \<in> set (b # xs). double_gt (key x) t)"
proof
  assume "double_gt (key (py_max_by key b xs)) t"
  then show "\<exists>x \<in> set (b # xs). double_gt (key x) t"
    using py_max_by_in [of key b xs] by blast
next
  assume "\<exists>x \<in> set (b # xs). double_gt (key x) t"
  then obtain x where x: "x \<in> set (b # xs)" "double_gt (key x) t" by blast
  have "key (py_max_by key b xs) \<noteq> Not_a_Number"
    using py_max_by_in [of key b xs] assms by (auto simp: list_all_iff)
  then show "double_gt (key (py_max_by key b xs)) t"
    using double_gt_carry [OF x(2) py_max_by_ge [OF assms x(1)]] by simp
qed

text \<open>
  The results of the two scenarios, as \<open>run_zeno_experiment\<close> stores them.
\<close>

lemma margin_scenario_results:
  "map (\<lambda>x. (fst x, result_type (snd x), prob_0 (snd x))) (experiment_results margin_scenario)
   = [(''unobserved'', ''unobserved'', Double (1 / 2)), (''zeno_4'', ''zeno'', Double (17 / 32))]"
  by (simp add: margin_scenario_def zeno_scenario_def process_zeno_result_def
      final_bit_marginal_def total_counts_def dict_values_sum_def int_truediv_def
      bind_result_def str_int_def rounding_defs)

lemma boundary_scenario_results:
  "map (\<lambda>x. (fst x, result_type (snd x), prob_0 (snd x))) (experiment_results boundary_scenario)
   = [(''unobserved'', ''unobserved'', Double (1080863910568919 / 9007199254740992)),
      (''zeno_4'', ''zeno'', Double (6124895493223875 / 36028797018963968))]"
  by (simp add: boundary_scenario_def zeno_scenario_def process_zeno_result_def
      final_bit_marginal_def total_counts_def dict_values_sum_def int_truediv_def
      bind_result_def str_int_def rounding_defs)

text \<open>
  The sum of the doubles 0.12 and 0.05 is the double below 0.17, so a \<open>prob_0\<close> of
  17/100 against an unobserved 12/100 is reported as the observed effect.
\<close>

lemma boundary_scenario_observed:
  "double_add (Double (1080863910568919 / 9007199254740992)) (float_literal (5 / 100))
     = Double (3062447746611937 / 18014398509481984)
   \<and> zeno_analyze_results boundary_scenario = Some Zeno_Effect_Observed"
  by (simp add: zeno_analyze_results_def boundary_scenario_def zeno_scenario_def
      process_zeno_result_def final_bit_marginal_def total_counts_def dict_values_sum_def
      int_truediv_def bind_result_def str_int_def rounding_defs)

text \<open>
  C7, as amended.  When no stored \<open>prob_0\<close> is the double "not a number", the
  analysis reports "Zeno effect observed" if and only if the unobserved result exists
  and the \<open>prob_0\<close> of some Zeno result is greater than the double-precision sum of the
  unobserved \<open>prob_0\<close> and the literal 0.05.  The margin is that literal of
  \<open>analyze_results\<close>; the experiment dictionary carries no margin.
\<close>

theorem zeno_observed_iff:
  assumes "list_all (\<lambda>x. prob_0 (snd x) \<noteq> Not_a_Number) (experiment_results experiment)"
  shows "(zeno_analyze_results experiment = Some Zeno_Effect_Observed)
         = observed_at_margin (float_literal (5 / 100)) (experiment_results experiment)"
proof (cases "map_of (experiment_results experiment) ''unobserved''")
  case None
  then show ?thesis by (simp add: zeno_analyze_results_def observed_at_margin_def)
next
  case (Some u)
  let ?t = "double_add (prob_0 u) (float_literal (5 / 100))"
  let ?zs = "sort_key (\<lambda>x. num_measurements (snd x))
               (filter (\<lambda>x. result_type (snd x) = ''zeno'') (experiment_results experiment))"
  have set_zs: "set ?zs = {x \<in> set (experiment_results experiment). result_type (snd x) = ''zeno''}"
    by simp
  show ?thesis
  proof (cases ?zs)
    case Nil
    then have "{x \<in> set (experiment_results experiment). result_type (snd x) = ''zeno''} = {}"
      using set_zs by simp
    then have "\<not> list_ex (\<lambda>x. result_type (snd x) = ''zeno'' \<and> double_gt (prob_0 (snd x)) ?t)
                 (experiment_results experiment)"
      by (auto simp: list_ex_iff)
    then show ?thesis using Some Nil
      by (simp add: zeno_analyze_results_def observed_at_margin_def)
  next
    case (Cons z zs)
    have "set (z # zs) \<subseteq> set (experiment_results experiment)"
      using set_zs Cons by auto
    then have numbers: "list_all (\<lambda>x. prob_0 (snd x) \<noteq> Not_a_Number) (z # zs)"
      using assms unfolding list_all_iff by blast
    have "double_gt (prob_0 (snd (py_max_by (\<lambda>x. prob_0 (snd x)) z zs))) ?t
          = (\<exists>x \<in> set (z # zs). double_gt (prob_0 (snd x)) ?t)"
      by (rule py_max_by_exceeds [OF numbers])
    also have "\<dots> = (\<exists>x \<in> set ?zs. double_gt (prob_0 (snd x)) ?t)"
      using Cons by simp
    also have "\<dots> = list_ex (\<lambda>x. result_type (snd x) = ''zeno'' \<and> double_gt (prob_0 (snd x)) ?t)
                 (experiment_results experiment)"
      unfolding set_zs list_ex_iff by fastforce
    finally show ?thesis using Some Cons
      by (simp add: zeno_analyze_results_def observed_at_margin_def Let_def)
  qed
qed

theorem zeno_observed_iff_witness:
  "list_all (\<lambda>x. prob_0 (snd x) \<noteq> Not_a_Number) (experiment_results boundary_scenario)
   \<and> zeno_analyze_results boundary_scenario = Some Zeno_Effect_Observed
   \<and> observed_at_margin (float_literal (5 / 100)) (experiment_results boundary_scenario)"
proof -
  have numbers: "list_all (\<lambda>x. prob_0 (snd x) \<noteq> Not_a_Number) (experiment_results boundary_scenario)"
    by (simp add: boundary_scenario_def zeno_scenario_def process_zeno_result_def
        final_bit_marginal_def total_counts_def dict_values_sum_def int_truediv_def
        bind_result_def str_int_def rounding_defs)
  show ?thesis
    using numbers zeno_observed_iff [OF numbers] boundary_scenario_observed by simp
qed

text \<open>
  With a margin of 0.02 the specification's decision is "observed" for an increase from
  16/32 to 17/32; the analysis reports the weak effect, whatever the experiment
  dictionary holds.
\<close>

theorem zeno_margin_not_configurable:
  "zeno_analyze_results margin_scenario = Some Weak_Zeno_Effect
   \<and> observed_at_margin (float_literal (2 / 100)) (experiment_results margin_scenario)"
  by (simp add: margin_scenario_def zeno_scenario_def process_zeno_result_def
      final_bit_marginal_def total_counts_def dict_values_sum_def int_truediv_def
      bind_result_def str_int_def rounding_defs observed_at_margin_def zeno_analyze_results_def)

subsection \<open>The result decoder\<close>

lemma getattr_default_cases:
  "getattr_default d name = Inr PyNone
   \<or> (\<exists>a. (name, a) \<in> set (attributes d)
          \<and> (case a of Attr_Raises e \<Rightarrow> getattr_default d name = Inl e \<and> e \<noteq> AttributeError
               | Attr_Value obj \<Rightarrow> getattr_default d name = Inr obj))"
  by (auto simp: getattr_default_def getattr_plain_def
      split: option.splits attribute.splits dest: map_of_SomeD)

lemma getattr_plain_cases:
  "getattr_plain d name = Inl AttributeError
   \<or> (\<exists>a. (name, a) \<in> set (attributes d)
          \<and> (case a of Attr_Raises e \<Rightarrow> getattr_plain d name = Inl e
               | Attr_Value obj \<Rightarrow> getattr_plain d name = Inr obj))"
  by (auto simp: getattr_plain_def split: option.splits attribute.splits dest: map_of_SomeD)

text \<open>On a calm result every read gives a value whose accessor does not raise.\<close>

lemma calm_getattr_default:
  assumes "calm d"
  shows "\<exists>obj. getattr_default d name = Inr obj \<and> \<not> raises obj"
proof -
  from getattr_default_cases [of d name]
  show ?thesis
  proof
    assume "getattr_default d name = Inr PyNone"
    then show ?thesis by (simp add: raises_def)
  next
    assume "\<exists>a. (name, a) \<in> set (attributes d)
          \<and> (case a of Attr_Raises e \<Rightarrow> getattr_default d name = Inl e \<and> e \<noteq> AttributeError
               | Attr_Value obj \<Rightarrow> getattr_default d name = Inr obj)"
    then obtain a where a: "(name, a) \<in> set (attributes d)"
      and r: "case a of Attr_Raises e \<Rightarrow> getattr_default d name = Inl e \<and> e \<noteq> AttributeError
               | Attr_Value obj \<Rightarrow> getattr_default d name = Inr obj"
      by blast
    from assms a have "calm_attribute a" by (auto simp: calm_def list_all_iff)
    with r show ?thesis by (cases a) (auto simp: calm_attribute_def)
  qed
qed

lemma calm_getattr_plain:
  assumes "calm d" and "name \<in> fst ` set (attributes d)"
  shows "\<exists>obj. getattr_plain d name = Inr obj \<and> \<not> raises obj
               \<and> getattr_default d name = Inr obj"
proof -
  from assms(2) obtain a where m: "map_of (attributes d) name = Some a"
    by (cases "map_of (attributes d) name") (auto simp: map_of_eq_None_iff)
  then have "(name, a) \<in> set (attributes d)" by (rule map_of_SomeD)
  with assms(1) have "calm_attribute a" by (auto simp: calm_def list_all_iff)
  then show ?thesis
    using m by (cases a) (auto simp: calm_attribute_def getattr_plain_def getattr_default_def)
qed

lemma return_get_counts_calm:
  "\<not> raises obj \<Longrightarrow>
   return_get_counts obj = (case usable obj of Some h \<Rightarrow> Return h | None \<Rightarrow> Raise AttributeError)"
  by (auto simp: return_get_counts_def call_get_counts_def usable_def raises_def
      split: py_object.splits option.splits get_counts_call.splits)

lemma usable_PyNone: "usable PyNone = None"
  by (simp add: usable_def)

lemma primary_block_calm:
  assumes "calm d"
  shows "except_clause attribute_or_index_error (primary_body (Data d) cregs)
         = (case usable_field d (creg_name cregs) of Some h \<Rightarrow> Return h | None \<Rightarrow> Pass)"
proof -
  obtain obj where obj: "getattr_default d (creg_name cregs) = Inr obj" "\<not> raises obj"
    using calm_getattr_default [OF assms] by blast
  show ?thesis
    by (cases "usable obj")
       (auto simp: primary_body_def obj usable_field_def return_get_counts_calm except_clause_def
          attribute_or_index_error_def usable_PyNone)
qed

lemma probe_names_calm:
  assumes "calm d"
  shows "probe_names (Data d) names
         = (case find (present d) names of
              None \<Rightarrow> Pass
            | Some name \<Rightarrow>
                (case usable_field d name of
                   Some h \<Rightarrow> Return h
                 | None \<Rightarrow> Raise AttributeError))"
proof (induction names)
  case Nil
  then show ?case by simp
next
  case (Cons name names)
  obtain obj where obj: "getattr_default d name = Inr obj" "\<not> raises obj"
    using calm_getattr_default [OF assms] by blast
  show ?case
  proof (cases "obj = PyNone")
    case True
    then show ?thesis using Cons obj by (simp add: present_def)
  next
    case False
    then show ?thesis
      using obj by (simp add: present_def usable_field_def return_get_counts_calm)
  qed
qed

lemma scan_attrs_calm:
  assumes "calm d"
  shows "list_all (\<lambda>name. name \<in> fst ` set (attributes d)) listing
         \<Longrightarrow> scan_attrs d listing
             = (case first_usable d (filter (\<lambda>attr. \<not> startswith_underscore attr) listing) of
                  Some h \<Rightarrow> Return h
                | None \<Rightarrow> Pass)"
proof (induction listing)
  case Nil
  then show ?case by simp
next
  case (Cons attr attrs)
  from Cons.prems have "attr \<in> fst ` set (attributes d)" by simp
  then obtain obj where obj: "getattr_plain d attr = Inr obj" "\<not> raises obj"
      "getattr_default d attr = Inr obj"
    using calm_getattr_plain [OF assms] by blast
  from Cons have IH: "scan_attrs d attrs
      = (case first_usable d (filter (\<lambda>attr. \<not> startswith_underscore attr) attrs) of
           Some h \<Rightarrow> Return h | None \<Rightarrow> Pass)"
    by simp
  show ?case
    using obj(2)
    by (auto simp: obj(1) obj(3) IH usable_field_def hasattr_get_counts_def usable_def
        return_get_counts_def call_get_counts_def raises_def
        split: py_object.splits option.splits get_counts_call.splits)
qed

lemma scan_block_calm:
  assumes "calm d"
  shows "except_clause is_Exception (scan_body (Data d))
         = (case first_usable d
                   (filter (\<lambda>attr. \<not> startswith_underscore attr) (listed_names d)) of
              Some h \<Rightarrow> Return h
            | None \<Rightarrow> Pass)"
proof -
  from assms obtain listing where l: "dir_listing d = Inr listing"
    and names: "list_all (\<lambda>name. name \<in> fst ` set (attributes d)) listing"
    by (auto simp: calm_def split: sum.splits)
  show ?thesis
    using scan_attrs_calm [OF assms names]
    by (simp add: scan_body_def l listed_names_def except_clause_def split: option.splits)
qed

lemma extract_counts_calm:
  assumes "calm d"
  shows "extract_counts (Data d) cregs = Inr (probe_chain d (creg_name cregs))"
  unfolding extract_counts_def probe_chain_def scan_chain_def
    primary_block_calm [OF assms] probe_names_calm [OF assms] scan_block_calm [OF assms]
  by (simp add: except_clause_def attribute_error_def split: option.splits)

text \<open>
  When every present conventional field yields a histogram, ending the probe at the
  first present field is the same as taking the first usable one.
\<close>

lemma probe_is_first_usable:
  assumes "calm d"
  shows "list_all (\<lambda>name. getattr_default d name \<noteq> Inr (Object None)) names
         \<Longrightarrow> (case find (present d) names of
                None \<Rightarrow> None
              | Some name \<Rightarrow> usable_field d name)
             = first_usable d names
           \<and> (find (present d) names \<noteq> None \<longrightarrow> first_usable d names \<noteq> None)"
proof (induction names)
  case Nil
  then show ?case by simp
next
  case (Cons name names)
  obtain obj where obj: "getattr_default d name = Inr obj" "\<not> raises obj"
    using calm_getattr_default [OF assms] by blast
  from Cons.prems have acc: "obj \<noteq> Object None" using obj by simp
  show ?case
  proof (cases "obj = PyNone")
    case True
    then show ?thesis using Cons obj by (simp add: present_def usable_field_def usable_PyNone)
  next
    case False
    with acc obj(2) obtain h where "obj = Object (Some (Returns h))"
      by (cases obj) (auto simp: raises_def split: option.splits get_counts_call.splits)
    then show ?thesis using obj(1) by (simp add: present_def usable_field_def usable_def)
  qed
qed

lemma first_usable_append:
  "first_usable d (xs @ ys)
   = (case first_usable d xs of Some h \<Rightarrow> Some h | None \<Rightarrow> first_usable d ys)"
  by (induction xs) (auto split: option.splits)

lemma extract_counts_orderly:
  assumes "orderly d"
  shows "extract_counts (Data d) cregs = Inr (fallback_chain d (creg_name cregs))"
proof -
  from assms have c: "calm d"
    and conv: "list_all (\<lambda>name. getattr_default d name \<noteq> Inr (Object None)) conventional_names"
    by (simp_all add: orderly_def)
  have "probe_chain d (creg_name cregs) = fallback_chain d (creg_name cregs)"
    using probe_is_first_usable [OF c conv]
    by (auto simp: probe_chain_def fallback_chain_def scan_chain_def first_usable_append
        split: option.splits)
  then show ?thesis using extract_counts_calm [OF c] by simp
qed

text \<open>On a quiet result no block lets an exception leave the function.\<close>

lemma return_get_counts_quiet:
  "raises_only caught obj \<Longrightarrow> caught AttributeError
   \<Longrightarrow> except_clause caught (return_get_counts obj) \<noteq> Raise e"
  by (auto simp: raises_only_def return_get_counts_def call_get_counts_def except_clause_def
      split: py_object.splits option.splits get_counts_call.splits)

lemma except_clause_Raise:
  "(except_clause caught body = Raise e) = (body = Raise e \<and> \<not> caught e)"
  by (cases body) (auto simp: except_clause_def)

lemma primary_block_quiet:
  assumes "reads_quietly attribute_or_index_error d (creg_name cregs)"
  shows "except_clause attribute_or_index_error (primary_body (Data d) cregs) \<noteq> Raise e"
proof (cases "getattr_default d (creg_name cregs)")
  case (Inl e')
  then show ?thesis
    using assms by (auto simp: primary_body_def reads_quietly_def except_clause_def)
next
  case (Inr obj)
  then have "raises_only attribute_or_index_error obj"
    using assms by (simp add: reads_quietly_def)
  then have "except_clause attribute_or_index_error (return_get_counts obj) \<noteq> Raise e"
    by (rule return_get_counts_quiet) (simp add: attribute_or_index_error_def)
  then show ?thesis
    using Inr by (auto simp: primary_body_def except_clause_def)
qed

lemma probe_names_quiet:
  "list_all (reads_quietly attribute_error d) names
   \<Longrightarrow> except_clause attribute_error (probe_names (Data d) names) \<noteq> Raise e"
proof (induction names)
  case Nil
  then show ?case by (simp add: except_clause_def)
next
  case (Cons name names)
  from Cons.prems have q: "reads_quietly attribute_error d name" by simp
  show ?case
  proof (cases "getattr_default d name")
    case (Inl e')
    then show ?thesis using q by (auto simp: reads_quietly_def except_clause_def)
  next
    case (Inr obj)
    then have "raises_only attribute_error obj" using q by (simp add: reads_quietly_def)
    then have "except_clause attribute_error (return_get_counts obj) \<noteq> Raise e"
      by (rule return_get_counts_quiet) (simp add: attribute_error_def)
    then show ?thesis using Inr Cons by auto
  qed
qed

lemma scan_attrs_Raise:
  assumes "scans_quietly d"
  shows "scan_attrs d listing = Raise e \<Longrightarrow> is_Exception e"
proof (induction listing)
  case Nil
  then show ?case by simp
next
  case (Cons attr attrs)
  show ?case
  proof (cases "scan_attrs d attrs = Raise e")
    case True
    then show ?thesis using Cons.IH by simp
  next
    case False
    with Cons.prems have here: "\<not> startswith_underscore attr"
      and r: "(case getattr_plain d attr of
                 Inl e \<Rightarrow> Raise e
               | Inr data \<Rightarrow> if hasattr_get_counts data then return_get_counts data
                              else scan_attrs d attrs) = Raise e"
      by (auto split: if_splits)
    from getattr_plain_cases [of d attr] show ?thesis
    proof
      assume "getattr_plain d attr = Inl AttributeError"
      with r show ?thesis by (simp add: is_Exception_def)
    next
      assume "\<exists>a. (attr, a) \<in> set (attributes d)
          \<and> (case a of Attr_Raises e \<Rightarrow> getattr_plain d attr = Inl e
               | Attr_Value obj \<Rightarrow> getattr_plain d attr = Inr obj)"
      then obtain a where a: "(attr, a) \<in> set (attributes d)"
        and g: "case a of Attr_Raises e \<Rightarrow> getattr_plain d attr = Inl e
               | Attr_Value obj \<Rightarrow> getattr_plain d attr = Inr obj"
        by blast
      from assms a have ok: "case a of Attr_Raises e \<Rightarrow> is_Exception e
                             | Attr_Value obj \<Rightarrow> raises_only is_Exception obj"
        by (auto simp: scans_quietly_def list_all_iff)
      show ?thesis
      proof (cases a)
        case (Attr_Raises e')
        then show ?thesis using g r ok by simp
      next
        case (Attr_Value obj)
        then show ?thesis
          using g r ok False
          by (auto simp: raises_only_def return_get_counts_def call_get_counts_def
              is_Exception_def
              split: if_splits py_object.splits option.splits get_counts_call.splits)
      qed
    qed
  qed
qed

lemma scan_block_quiet:
  assumes "scans_quietly d"
  shows "except_clause is_Exception (scan_body (Data d)) \<noteq> Raise e"
proof (cases "dir_listing d")
  case (Inl e')
  then show ?thesis
    using assms by (auto simp: scan_body_def scans_quietly_def except_clause_def)
next
  case (Inr listing)
  then show ?thesis
    using scan_attrs_Raise [OF assms, of listing e]
    by (auto simp: scan_body_def except_clause_Raise)
qed

lemma extract_counts_quiet:
  assumes "quiet pub_result (creg_name cregs)"
  shows "\<exists>h. extract_counts pub_result cregs = Inr h"
proof (cases pub_result)
  case (Data_Raises e)
  then show ?thesis
    using assms
    by (simp add: quiet_def extract_counts_def primary_body_def conventional_names_def
        scan_body_def except_clause_def attribute_or_index_error_def attribute_error_def
        is_Exception_def)
next
  case (Data d)
  with assms have q: "reads_quietly attribute_or_index_error d (creg_name cregs)"
      "list_all (reads_quietly attribute_error d) conventional_names" "scans_quietly d"
    by (simp_all add: quiet_def)
  show ?thesis
    using primary_block_quiet [OF q(1)] probe_names_quiet [OF q(2)] scan_block_quiet [OF q(3)]
    unfolding Data extract_counts_def
    by (auto split: block_end.splits)
qed

text \<open>A block that returns a histogram has found a usable field.\<close>

lemma return_get_counts_Return:
  "return_get_counts obj = Return h \<Longrightarrow> usable obj = Some h"
  by (auto simp: return_get_counts_def usable_def call_get_counts_def
      split: py_object.splits option.splits get_counts_call.splits)

lemma except_clause_Return:
  "(except_clause caught body = Return h) = (body = Return h)"
  by (cases body) (auto simp: except_clause_def)

lemma nothing_usable_default:
  assumes "nothing_usable d" and "getattr_default d name = Inr obj"
  shows "usable obj = None"
proof -
  from getattr_default_cases [of d name] show ?thesis
  proof
    assume "getattr_default d name = Inr PyNone"
    with assms(2) show ?thesis by (simp add: usable_PyNone)
  next
    assume "\<exists>a. (name, a) \<in> set (attributes d)
          \<and> (case a of Attr_Raises e \<Rightarrow> getattr_default d name = Inl e \<and> e \<noteq> AttributeError
               | Attr_Value obj \<Rightarrow> getattr_default d name = Inr obj)"
    then obtain a where a: "(name, a) \<in> set (attributes d)"
      and g: "case a of Attr_Raises e \<Rightarrow> getattr_default d name = Inl e \<and> e \<noteq> AttributeError
               | Attr_Value obj \<Rightarrow> getattr_default d name = Inr obj"
      by blast
    from assms(1) a have ok: "case a of Attr_Raises e \<Rightarrow> True | Attr_Value obj \<Rightarrow> usable obj = None"
      by (auto simp: nothing_usable_def list_all_iff)
    show ?thesis using g ok assms(2) by (cases a) simp_all
  qed
qed

lemma nothing_usable_plain:
  assumes "nothing_usable d" and "getattr_plain d name = Inr obj"
  shows "usable obj = None"
proof -
  from getattr_plain_cases [of d name] show ?thesis
  proof
    assume "getattr_plain d name = Inl AttributeError"
    with assms(2) show ?thesis by simp
  next
    assume "\<exists>a. (name, a) \<in> set (attributes d)
          \<and> (case a of Attr_Raises e \<Rightarrow> getattr_plain d name = Inl e
               | Attr_Value obj \<Rightarrow> getattr_plain d name = Inr obj)"
    then obtain a where a: "(name, a) \<in> set (attributes d)"
      and g: "case a of Attr_Raises e \<Rightarrow> getattr_plain d name = Inl e
               | Attr_Value obj \<Rightarrow> getattr_plain d name = Inr obj"
      by blast
    from assms(1) a have ok: "case a of Attr_Raises e \<Rightarrow> True | Attr_Value obj \<Rightarrow> usable obj = None"
      by (auto simp: nothing_usable_def list_all_iff)
    show ?thesis using g ok assms(2) by (cases a) simp_all
  qed
qed

lemma primary_body_no_Return:
  assumes "nothing_usable d"
  shows "primary_body (Data d) cregs \<noteq> Return h"
  using nothing_usable_default [OF assms, of "creg_name cregs"]
  by (auto simp: primary_body_def split: sum.splits if_splits dest!: return_get_counts_Return)

lemma probe_names_no_Return:
  assumes "nothing_usable d"
  shows "probe_names (Data d) names \<noteq> Return h"
proof (induction names)
  case Nil
  then show ?case by simp
next
  case (Cons name names)
  then show ?case
    using nothing_usable_default [OF assms, of name]
    by (auto split: sum.splits if_splits dest!: return_get_counts_Return)
qed

lemma scan_attrs_no_Return:
  assumes "nothing_usable d"
  shows "scan_attrs d listing \<noteq> Return h"
proof (induction listing)
  case Nil
  then show ?case by simp
next
  case (Cons attr attrs)
  then show ?case
    using nothing_usable_plain [OF assms, of attr]
    by (auto split: sum.splits if_splits dest!: return_get_counts_Return)
qed

lemma extract_counts_nothing_usable:
  assumes "quiet (Data d) (creg_name cregs)" and "nothing_usable d"
  shows "extract_counts (Data d) cregs = Inr []"
proof -
  from assms(1) have q: "reads_quietly attribute_or_index_error d (creg_name cregs)"
      "list_all (reads_quietly attribute_error d) conventional_names" "scans_quietly d"
    by (simp_all add: quiet_def)
  have 1: "except_clause attribute_or_index_error (primary_body (Data d) cregs) = Pass"
    using primary_block_quiet [OF q(1)] primary_body_no_Return [OF assms(2)]
    by (cases "except_clause attribute_or_index_error (primary_body (Data d) cregs)")
       (auto simp: except_clause_Return)
  have 2: "except_clause attribute_error (probe_names (Data d) conventional_names) = Pass"
    using probe_names_quiet [OF q(2)] probe_names_no_Return [OF assms(2)]
    by (cases "except_clause attribute_error (probe_names (Data d) conventional_names)")
       (auto simp: except_clause_Return)
  have "scan_body (Data d) \<noteq> Return h" for h
    using scan_attrs_no_Return [OF assms(2)] by (auto simp: scan_body_def split: sum.splits)
  then have 3: "except_clause is_Exception (scan_body (Data d)) = Pass"
    using scan_block_quiet [OF q(3)]
    by (cases "except_clause is_Exception (scan_body (Data d))")
       (auto simp: except_clause_Return)
  show ?thesis by (simp add: extract_counts_def 1 2 3)
qed

text \<open>Four result objects, for the cases of the decoder.\<close>

lemmas decoder_defs =
  extract_counts_def primary_body_def conventional_names_def scan_body_def except_clause_def
  attribute_or_index_error_def attribute_error_def is_Exception_def return_get_counts_def
  call_get_counts_def hasattr_get_counts_def getattr_default_def getattr_plain_def
  creg_name_def startswith_underscore_def

lemmas condition_defs =
  calm_def calm_attribute_def orderly_def quiet_def reads_quietly_def scans_quietly_def
  raises_only_def raises_def nothing_usable_def usable_def usable_field_def present_def
  probe_chain_def fallback_chain_def scan_chain_def listed_names_def

text \<open>
  C3, as amended.  A result whose \<open>data\<close> cannot be read decodes to the empty mapping
  when the read raises \<open>AttributeError\<close>; any other exception of that read reaches
  the caller.  On a quiet result, one on which the primary read and accessor raise at
  most \<open>AttributeError\<close> or \<open>IndexError\<close>, the reads and accessors of \<open>meas\<close>, \<open>c\<close>,
  \<open>c0\<close> raise at most \<open>AttributeError\<close>, and \<open>dir\<close>, the other reads and the other
  accessors raise only an \<open>Exception\<close>, the decoder returns a histogram and raises
  nothing; if moreover no field is usable it returns the empty mapping.  On a calm
  result, one on which nothing raises, the decoder returns the first success of: the
  primary label; then the first present one of \<open>meas\<close>, \<open>c\<close>, \<open>c0\<close>, the later ones
  not being probed; then the listed names without a leading underscore, in listing
  order; and the empty mapping when there is no success.  On an orderly result, a calm
  one where none of \<open>meas\<close>, \<open>c\<close>, \<open>c0\<close> is an object without the accessor, this is the
  ordered chain primary, \<open>meas\<close>, \<open>c\<close>, \<open>c0\<close>, generic scan.
\<close>

theorem extract_counts_fallback:
  "extract_counts (Data_Raises e) cregs = (if e = AttributeError then Inr [] else Inl e)
   \<and> (quiet pub_result (creg_name cregs) \<longrightarrow> (\<exists>h. extract_counts pub_result cregs = Inr h))
   \<and> (quiet (Data d) (creg_name cregs) \<and> nothing_usable d
        \<longrightarrow> extract_counts (Data d) cregs = Inr [])
   \<and> (calm d \<longrightarrow> extract_counts (Data d) cregs = Inr (probe_chain d (creg_name cregs)))
   \<and> (orderly d \<longrightarrow> extract_counts (Data d) cregs = Inr (fallback_chain d (creg_name cregs)))"
proof (intro conjI impI)
  show "extract_counts (Data_Raises e) cregs = (if e = AttributeError then Inr [] else Inl e)"
    by (cases e) (simp_all add: decoder_defs)
  show "quiet pub_result (creg_name cregs) \<Longrightarrow> \<exists>h. extract_counts pub_result cregs = Inr h"
    by (rule extract_counts_quiet)
  show "quiet (Data d) (creg_name cregs) \<and> nothing_usable d
        \<Longrightarrow> extract_counts (Data d) cregs = Inr []"
    using extract_counts_nothing_usable by blast
  show "calm d \<Longrightarrow> extract_counts (Data d) cregs = Inr (probe_chain d (creg_name cregs))"
    by (rule extract_counts_calm)
  show "orderly d \<Longrightarrow> extract_counts (Data d) cregs = Inr (fallback_chain d (creg_name cregs))"
    by (rule extract_counts_orderly)
qed

theorem extract_counts_fallback_witness:
  "orderly \<lparr>attributes = [(''_hidden'', Attr_Value PyNone),
                          (''custom'', Attr_Value (Object (Some (Returns [(''00'', 7)]))))],
            dir_listing = Inr [''_hidden'', ''custom'']\<rparr>
   \<and> extract_counts
        (Data \<lparr>attributes = [(''_hidden'', Attr_Value PyNone),
                             (''custom'', Attr_Value (Object (Some (Returns [(''00'', 7)]))))],
               dir_listing = Inr [''_hidden'', ''custom'']\<rparr>) []
       = Inr [(''00'', 7)]
   \<and> calm \<lparr>attributes = [(''alpha'', Attr_Value (Object (Some (Returns [(''0'', 1)])))),
                          (''c'', Attr_Value (Object (Some (Returns [(''1'', 2)])))),
                          (''meas'', Attr_Value (Object None))],
            dir_listing = Inr [''alpha'', ''c'', ''meas'']\<rparr>
   \<and> extract_counts
        (Data \<lparr>attributes = [(''alpha'', Attr_Value (Object (Some (Returns [(''0'', 1)])))),
                             (''c'', Attr_Value (Object (Some (Returns [(''1'', 2)])))),
                             (''meas'', Attr_Value (Object None))],
               dir_listing = Inr [''alpha'', ''c'', ''meas'']\<rparr>) [''q'']
       = Inr [(''0'', 1)]
   \<and> quiet (Data \<lparr>attributes = [(''broken'', Attr_Raises KeyError),
                                 (''evs'', Attr_Value (Object None)),
                                 (''meas'', Attr_Value (Object (Some (Raises AttributeError))))],
                   dir_listing = Inr [''broken'', ''evs'', ''meas'']\<rparr>) ''c''
   \<and> nothing_usable \<lparr>attributes = [(''broken'', Attr_Raises KeyError),
                                 (''evs'', Attr_Value (Object None)),
                                 (''meas'', Attr_Value (Object (Some (Raises AttributeError))))],
                   dir_listing = Inr [''broken'', ''evs'', ''meas'']\<rparr>
   \<and> extract_counts
        (Data \<lparr>attributes = [(''broken'', Attr_Raises KeyError),
                             (''evs'', Attr_Value (Object None)),
                             (''meas'', Attr_Value (Object (Some (Raises AttributeError))))],
               dir_listing = Inr [''broken'', ''evs'', ''meas'']\<rparr>) []
       = Inr []"
  using extract_counts_fallback
          [where cregs = "[]"
             and d = "\<lparr>attributes = [(''_hidden'', Attr_Value PyNone),
                          (''custom'', Attr_Value (Object (Some (Returns [(''00'', 7)]))))],
                        dir_listing = Inr [''_hidden'', ''custom'']\<rparr>"]
        extract_counts_fallback
          [where cregs = "[''q'']"
             and d = "\<lparr>attributes = [(''alpha'', Attr_Value (Object (Some (Returns [(''0'', 1)])))),
                          (''c'', Attr_Value (Object (Some (Returns [(''1'', 2)])))),
                          (''meas'', Attr_Value (Object None))],
                        dir_listing = Inr [''alpha'', ''c'', ''meas'']\<rparr>"]
        extract_counts_fallback
          [where cregs = "[]"
             and pub_result = "Data \<lparr>attributes = [(''broken'', Attr_Raises KeyError),
                                 (''evs'', Attr_Value (Object None)),
                                 (''meas'', Attr_Value (Object (Some (Raises AttributeError))))],
                   dir_listing = Inr [''broken'', ''evs'', ''meas'']\<rparr>"
             and d = "\<lparr>attributes = [(''broken'', Attr_Raises KeyError),
                                 (''evs'', Attr_Value (Object None)),
                                 (''meas'', Attr_Value (Object (Some (Raises AttributeError))))],
                   dir_listing = Inr [''broken'', ''evs'', ''meas'']\<rparr>"]
  by (simp add: condition_defs getattr_default_def getattr_plain_def creg_name_def
      conventional_names_def startswith_underscore_def attribute_or_index_error_def
      attribute_error_def is_Exception_def)

text \<open>
  An accessor of the primary field that raises \<open>TypeError\<close> (an attribute
  \<open>get_counts\<close> that is not callable), a read of \<open>meas\<close> that raises \<open>KeyError\<close> and
  a \<open>data\<close> that raises \<open>IndexError\<close> are caught by no \<open>except\<close> clause of their
  block: the exception reaches the caller.  And where \<open>meas\<close> is present without the
  accessor, \<open>c\<close> is not probed: the scan returns the histogram of the first listed
  name, not that of \<open>c\<close>, which the ordered chain would return.
\<close>

theorem extract_counts_raises:
  "extract_counts
     (Data \<lparr>attributes = [(''c'', Attr_Value (Object (Some (Raises TypeError))))],
            dir_listing = Inr [''c'']\<rparr>) [''c'']
     = Inl TypeError
   \<and> extract_counts
       (Data \<lparr>attributes = [(''meas'', Attr_Raises KeyError)],
              dir_listing = Inr [''meas'']\<rparr>) [''c'']
     = Inl KeyError
   \<and> extract_counts (Data_Raises IndexError) [''c''] = Inl IndexError
   \<and> extract_counts
       (Data \<lparr>attributes = [(''alpha'', Attr_Value (Object (Some (Returns [(''0'', 1)])))),
                            (''c'', Attr_Value (Object (Some (Returns [(''1'', 2)])))),
                            (''meas'', Attr_Value (Object None))],
              dir_listing = Inr [''alpha'', ''c'', ''meas'']\<rparr>) [''q'']
     = Inr [(''0'', 1)]
   \<and> fallback_chain
       \<lparr>attributes = [(''alpha'', Attr_Value (Object (Some (Returns [(''0'', 1)])))),
                      (''c'', Attr_Value (Object (Some (Returns [(''1'', 2)])))),
                      (''meas'', Attr_Value (Object None))],
        dir_listing = Inr [''alpha'', ''c'', ''meas'']\<rparr> ''q''
     = [(''1'', 2)]"
  by (simp add: decoder_defs condition_defs)

end
